theory Spec2Isabelle
  imports Main "HOL-Library.Multiset"
begin

text \<open>
  A model of \<^verbatim>\<open>app.py\<close> and \<^verbatim>\<open>database.py\<close>: the helpers, the completion client, the
  prompts and the route handlers as functions of the request, of the outcomes of the
  external calls and of the state, and the properties of the specification proved of them.
\<close>

section \<open>Strings\<close>

text \<open>
  A Python string is modelled by the bytes of its UTF-8 encoding. The program looks in a
  string for ASCII characters (the dot, the asterisk, the newline) and for whitespace
  characters, and in UTF-8 the bytes of a character never occur inside another character;
  so the functions below do to the encoding what Python does to the string.
  \<^item> \<open>strip\<close> removes, at both ends, the characters for which \<^verbatim>\<open>str.isspace\<close> holds:
    U+0009 to U+000D, U+001C to U+0020, U+0085, U+00A0, U+1680, U+2000 to U+200A, U+2028,
    U+2029, U+202F, U+205F and U+3000.
  \<^item> \<open>lower\<close> is exact on ASCII. In Python the only character outside ASCII whose
    lower-case form is ASCII is U+212A, which becomes \<open>k\<close>; no string the program compares
    a lower-case form with contains a \<open>k\<close>.
\<close>

definition WHITESPACE :: "string list" where
  \<comment> \<open>the UTF-8 encodings of the whitespace characters\<close>
  "WHITESPACE =
     [[CHR 0x09], [CHR 0x0A], [CHR 0x0B], [CHR 0x0C], [CHR 0x0D],
      [CHR 0x1C], [CHR 0x1D], [CHR 0x1E], [CHR 0x1F], [CHR 0x20],
      [CHR 0xC2, CHR 0x85], [CHR 0xC2, CHR 0xA0], [CHR 0xE1, CHR 0x9A, CHR 0x80],
      [CHR 0xE2, CHR 0x80, CHR 0x80], [CHR 0xE2, CHR 0x80, CHR 0x81],
      [CHR 0xE2, CHR 0x80, CHR 0x82], [CHR 0xE2, CHR 0x80, CHR 0x83],
      [CHR 0xE2, CHR 0x80, CHR 0x84], [CHR 0xE2, CHR 0x80, CHR 0x85],
      [CHR 0xE2, CHR 0x80, CHR 0x86], [CHR 0xE2, CHR 0x80, CHR 0x87],
      [CHR 0xE2, CHR 0x80, CHR 0x88], [CHR 0xE2, CHR 0x80, CHR 0x89],
      [CHR 0xE2, CHR 0x80, CHR 0x8A], [CHR 0xE2, CHR 0x80, CHR 0xA8],
      [CHR 0xE2, CHR 0x80, CHR 0xA9], [CHR 0xE2, CHR 0x80, CHR 0xAF],
      [CHR 0xE2, CHR 0x81, CHR 0x9F], [CHR 0xE3, CHR 0x80, CHR 0x80]]"

fun skip_one :: "string list \<Rightarrow> string \<Rightarrow> string option" where
  \<comment> \<open>the text behind the one of the given byte sequences that the text starts with\<close>
  "skip_one [] s = None"
| "skip_one (w # ws) s =
     (if w \<noteq> [] \<and> take (length w) s = w then Some (drop (length w) s) else skip_one ws s)"

lemma skip_one_length: "skip_one ws s = Some r \<Longrightarrow> length r < length s"
proof (induction ws)
  case Nil
  then show ?case by simp
next
  case (Cons w ws)
  show ?case
  proof (cases "w \<noteq> [] \<and> take (length w) s = w")
    case True
    then have "length (take (length w) s) = length w" by simp
    then have l1: "length w \<le> length s" by simp
    have l2: "0 < length w" using True by simp
    have "length s - length w < length s" using l1 l2 by arith
    moreover have "r = drop (length w) s" using True Cons.prems by simp
    ultimately show ?thesis by simp
  next
    case False
    then show ?thesis using Cons by auto
  qed
qed

function lstrip_chars :: "string list \<Rightarrow> string \<Rightarrow> string" where
  \<comment> \<open>the text without the given byte sequences at its start\<close>
  "lstrip_chars ws [] = []"
| "lstrip_chars ws (c # cs) =
     (case skip_one ws (c # cs) of
        None \<Rightarrow> c # cs
      | Some r \<Rightarrow> lstrip_chars ws r)"
  by pat_completeness auto
termination
  by (relation "measure (\<lambda>(ws, s). length s)") (auto dest: skip_one_length)

definition strip :: "string \<Rightarrow> string" where
  \<comment> \<open>\<^verbatim>\<open>s.strip()\<close>\<close>
  "strip s = rev (lstrip_chars (map rev WHITESPACE) (rev (lstrip_chars WHITESPACE s)))"

lemma strip_Nil: "strip [] = []"
  by (simp add: strip_def)

definition lower_char :: "char \<Rightarrow> char" where
  "lower_char c = (let n = (of_char c :: nat) in if 65 \<le> n \<and> n \<le> 90 then char_of (n + 32) else c)"

definition lower :: "string \<Rightarrow> string" where
  \<comment> \<open>\<^verbatim>\<open>s.lower()\<close>\<close>
  "lower s = map lower_char s"

definition rsplit1 :: "char \<Rightarrow> string \<Rightarrow> string list" where
  \<comment> \<open>\<^verbatim>\<open>s.rsplit(sep, 1)\<close> for a one-character separator: split at the last occurrence\<close>
  "rsplit1 sep s =
     (if sep \<in> set s
      then [rev (tl (dropWhile (\<lambda>c. c \<noteq> sep) (rev s))), rev (takeWhile (\<lambda>c. c \<noteq> sep) (rev s))]
      else [s])"

section \<open>Exceptions\<close>

datatype exn =
    Timeout string          \<comment> \<open>\<^verbatim>\<open>requests.Timeout\<close>\<close>
  | IntegrityError string   \<comment> \<open>\<^verbatim>\<open>sqlite3.IntegrityError\<close>\<close>
  | IndexError string
  | AttributeError string
  | OtherException string   \<comment> \<open>any other subclass of \<^verbatim>\<open>Exception\<close>\<close>

fun str_exn :: "exn \<Rightarrow> string" where
  \<comment> \<open>\<^verbatim>\<open>str(e)\<close>\<close>
  "str_exn (Timeout m) = m"
| "str_exn (IntegrityError m) = m"
| "str_exn (IndexError m) = m"
| "str_exn (AttributeError m) = m"
| "str_exn (OtherException m) = m"

definition index :: "'a list \<Rightarrow> nat \<Rightarrow> exn + 'a" where
  \<comment> \<open>\<^verbatim>\<open>xs[i]\<close> for \<open>i \<ge> 0\<close>\<close>
  "index xs i = (if i < length xs then Inr (xs ! i) else Inl (IndexError ''list index out of range''))"

section \<open>Helpers of app.py\<close>

definition ALLOWED :: "string set" where
  "ALLOWED = {''png'', ''jpg'', ''jpeg'', ''webp'', ''gif''}"

definition ok_file :: "string \<Rightarrow> exn + bool" where
  \<comment> \<open>\<^verbatim>\<open>"." in name and name.rsplit(".", 1)[1].lower() in ALLOWED\<close>\<close>
  "ok_file name =
     (if CHR ''.'' \<in> set name
      then (case index (rsplit1 CHR ''.'' name) 1 of
              Inl e \<Rightarrow> Inl e
            | Inr ext \<Rightarrow> Inr (lower ext \<in> ALLOWED))
      else Inr False)"

subsection \<open>strip_md\<close>

text \<open>
  \<^verbatim>\<open>re.sub(r"\*\*(.+?)\*\*", r"\1", text)\<close> scans the text from the left. At a position
  where the delimiter stands, the group \<^verbatim>\<open>(.+?)\<close> takes one character that is not a
  newline and then as few further such characters as possible until the delimiter stands
  again; the match is replaced by the group and the scan goes on behind the match. Where
  no match starts, the character is kept and the scan moves one position on.
\<close>

fun lazy_until :: "string \<Rightarrow> string \<Rightarrow> (string \<times> string) option" where
  \<comment> \<open>the shortest newline-free prefix of the text that is followed by the delimiter \<open>d\<close>,
      with the text behind that delimiter\<close>
  "lazy_until d [] = (if d = [] then Some ([], []) else None)"
| "lazy_until d (c # cs) =
     (if take (length d) (c # cs) = d then Some ([], drop (length d) (c # cs))
      else if c = CHR 0x0A then None
      else (case lazy_until d cs of
              None \<Rightarrow> None
            | Some (p, r) \<Rightarrow> Some (c # p, r)))"

definition match_at :: "string \<Rightarrow> string \<Rightarrow> (string \<times> string) option" where
  \<comment> \<open>a match of \<open>d(.+?)d\<close> at the start of the text: the group and the text behind the match\<close>
  "match_at d s =
     (if take (length d) s = d
      then (case drop (length d) s of
              [] \<Rightarrow> None
            | c # cs \<Rightarrow>
                if c = CHR 0x0A then None
                else (case lazy_until d cs of
                        None \<Rightarrow> None
                      | Some (p, r) \<Rightarrow> Some (c # p, r)))
      else None)"

lemma lazy_until_length: "lazy_until d s = Some (p, r) \<Longrightarrow> length r \<le> length s"
  by (induction d s arbitrary: p rule: lazy_until.induct)
     (auto split: if_splits option.splits)

lemma match_at_length: "match_at d (x # xs) = Some (g, r) \<Longrightarrow> length r < Suc (length xs)"
proof -
  assume m: "match_at d (x # xs) = Some (g, r)"
  then obtain c cs p where dr: "drop (length d) (x # xs) = c # cs"
    and lu: "lazy_until d cs = Some (p, r)"
    by (auto simp: match_at_def split: if_splits list.splits option.splits)
  have "length r \<le> length cs" using lu by (rule lazy_until_length)
  moreover have "length (c # cs) \<le> length (x # xs)"
    using dr by (metis length_drop diff_le_self)
  ultimately show ?thesis by simp
qed

function sub_emph :: "string \<Rightarrow> string \<Rightarrow> string" where
  \<comment> \<open>\<^verbatim>\<open>re.sub(d(.+?)d, r"\1", text)\<close> for a literal delimiter \<open>d\<close>\<close>
  "sub_emph d [] = []"
| "sub_emph d (x # xs) =
     (case match_at d (x # xs) of
        Some (g, r) \<Rightarrow> g @ sub_emph d r
      | None \<Rightarrow> x # sub_emph d xs)"
  by pat_completeness auto
termination
  by (relation "measure (\<lambda>(d, s). length s)") (auto dest: match_at_length)

definition strip_md :: "string \<Rightarrow> string" where
  "strip_md text = strip (sub_emph ''*'' (sub_emph ''**'' text))"

section \<open>Data model\<close>

datatype json =
    JNull | JBool bool | JNum int | JStr string | JArr "json list" | JObj "(string \<times> json) list"

datatype table = Users | FashionProfiles | AiRecommendations

text \<open>
  The three tables of \<^verbatim>\<open>init_db\<close>. A nullable column that the program fills with
  \<^verbatim>\<open>None\<close> is an \<open>option\<close>. A timestamp is a number: the text that
  \<^verbatim>\<open>CURRENT_TIMESTAMP\<close> stores is ordered as the time it denotes. The program binds a
  string to every text column and to \<open>age\<close>; \<open>age\<close> is declared \<^verbatim>\<open>INTEGER\<close>, so SQLite
  stores the number that the string denotes when it denotes one (\<^verbatim>\<open>028\<close> as 28,
  \<^verbatim>\<open>1e2\<close> as 100, \<^verbatim>\<open>25.5\<close> as a real) and the string itself otherwise.
\<close>

datatype sql_value =
    SqlInteger int
  | SqlReal int int   \<comment> \<open>a binary floating-point number: mantissa and exponent\<close>
  | SqlText string

record user_row =
  u_id :: nat
  u_name :: string
  u_phone :: "string option"
  u_email :: "string option"
  u_password :: string
  u_created_at :: nat

record profile_row =
  p_id :: nat
  p_user_id :: "nat option"
  p_gender :: string
  p_age :: sql_value
  p_size :: string
  p_culture_style :: string
  p_dress_style :: string
  p_photo_path :: string
  p_created_at :: nat

record rec_row =
  r_id :: nat
  r_user_id :: "nat option"
  r_profile_id :: "nat option"
  r_request_type :: string
  r_input_data :: string
  r_ai_response :: string
  r_created_at :: nat

datatype message_content =
    Text string                 \<comment> \<open>\<^verbatim>\<open>"content": prompt\<close>\<close>
  | ImageAndText string string  \<comment> \<open>the \<^verbatim>\<open>image_url\<close> part (a data URL) and the text part\<close>

record groq_request =
  model :: string
  content :: message_content
  max_tokens :: "nat option"
  timeout :: nat

text \<open>
  The state the program reads and writes: the rows of the three tables, the largest id
  handed out per table (\<^verbatim>\<open>AUTOINCREMENT\<close>), the files on disk, and the requests sent to
  the completion endpoint so far.
\<close>

record world =
  users :: "user_row list"
  fashion_profiles :: "profile_row list"
  ai_recommendations :: "rec_row list"
  seq_users :: nat
  seq_profiles :: nat
  seq_recs :: nat
  files :: "string \<rightharpoonup> string"
  http_log :: "groq_request list"

datatype pyval = PStr string | PBool bool

text \<open>
  What the program takes from outside: its configuration, the outcome of each external
  call, and the library functions it uses.
  \<^item> \<open>http_post\<close> stands for \<^verbatim>\<open>requests.post(...)\<close>, \<^verbatim>\<open>r.raise_for_status()\<close> and
    \<^verbatim>\<open>r.json()["choices"][0]["message"]["content"]\<close> together: the content string of
    the reply, or the exception one of the three raises;
  \<^item> \<open>save_fault\<close> is the exception \<^verbatim>\<open>photo.save\<close> raises, if any;
  \<^item> \<open>db_fault t\<close> is the exception that connecting to the database or executing a
    statement on table \<open>t\<close> raises, if any (other than a constraint violation);
  \<^item> \<open>now\<close> is \<^verbatim>\<open>CURRENT_TIMESTAMP\<close>;
  \<^item> \<open>numeric_text\<close> is SQLite's conversion of a string that is not an integer literal
    of 64 bits and is bound to a column declared \<^verbatim>\<open>INTEGER\<close>: a number if the string is
    another numeric literal, the string itself otherwise;
  \<^item> \<open>sha256_hex\<close>, \<open>secure_filename\<close>, \<open>b64encode\<close> and \<open>str_dict\<close> are
    \<^verbatim>\<open>hashlib.sha256(s.encode()).hexdigest()\<close>, werkzeug's \<^verbatim>\<open>secure_filename\<close>,
    \<^verbatim>\<open>base64.b64encode(b).decode()\<close> and \<^verbatim>\<open>str\<close> of a dict.
\<close>

record env =
  GROQ_KEY :: string
  UPLOAD_FOLDER :: string
  http_post :: "groq_request \<Rightarrow> exn + string"
  save_fault :: "exn option"
  db_fault :: "table \<Rightarrow> exn option"
  now :: nat
  numeric_text :: "string \<Rightarrow> sql_value"
  sha256_hex :: "string \<Rightarrow> string"
  secure_filename :: "string \<Rightarrow> string"
  b64encode :: "string \<Rightarrow> string"
  str_dict :: "(string \<times> pyval) list \<Rightarrow> string"

record session =
  user_id :: "nat option"
  user_name :: "string option"

text \<open>
  A request: the session, the parsed form (or the exception that reading the form raises:
  werkzeug raises \<^verbatim>\<open>RequestEntityTooLarge\<close> for a body beyond \<^verbatim>\<open>MAX_CONTENT_LENGTH\<close>),
  the uploaded file under the key \<^verbatim>\<open>photo\<close> (file name and content), and the value of
  \<^verbatim>\<open>request.get_json(force=True, silent=True)\<close> (\<open>JNull\<close> for \<^verbatim>\<open>None\<close>).
\<close>

record request =
  session :: session
  form :: "exn + (string \<rightharpoonup> string)"
  photo :: "(string \<times> string) option"
  json_body :: json

record response =
  status :: nat
  body :: json

definition jsonify :: "json \<Rightarrow> response" where
  "jsonify j = \<lparr>status = 200, body = j\<rparr>"

definition truthy_id :: "nat option \<Rightarrow> bool" where
  \<comment> \<open>\<^verbatim>\<open>if uid\<close> for \<^verbatim>\<open>uid = session.get("user_id")\<close>\<close>
  "truthy_id u = (case u of None \<Rightarrow> False | Some n \<Rightarrow> n \<noteq> 0)"

definition form_get :: "(string \<rightharpoonup> string) \<Rightarrow> string \<Rightarrow> string \<Rightarrow> string" where
  \<comment> \<open>\<^verbatim>\<open>request.form.get(key, default)\<close>\<close>
  "form_get f k d = (case f k of None \<Rightarrow> d | Some v \<Rightarrow> v)"

definition path_join :: "string \<Rightarrow> string \<Rightarrow> string" where
  \<comment> \<open>\<^verbatim>\<open>os.path.join(a, b)\<close> (POSIX)\<close>
  "path_join a b =
     (if take 1 b = ''/'' then b
      else if a = [] \<or> last a = CHR ''/'' then a @ b
      else a @ ''/'' @ b)"

section \<open>Completion client\<close>

definition GROQ_TEXT :: string where
  "GROQ_TEXT = ''llama-3.3-70b-versatile''"

definition GROQ_VISION :: string where
  "GROQ_VISION = ''meta-llama/llama-4-scout-17b-16e-instruct''"

definition KEY_MISSING :: string where
  \<comment> \<open>the string both entry points return without a key; it starts with U+26A0 U+FE0F\<close>
  "KEY_MISSING = [CHR 0xE2, CHR 0x9A, CHR 0xA0, CHR 0xEF, CHR 0xB8, CHR 0x8F]
     @ '' GROQ_API_KEY not set. Add it to your .env file and restart.''"

definition TIMED_OUT :: string where
  "TIMED_OUT = ''Request timed out. Please try again.''"

definition requests_post :: "env \<Rightarrow> groq_request \<Rightarrow> world \<Rightarrow> (exn + string) \<times> world" where
  "requests_post env rq w = (http_post env rq, w\<lparr>http_log := http_log w @ [rq]\<rparr>)"

definition text_request :: "string \<Rightarrow> groq_request" where
  \<comment> \<open>the request of \<^verbatim>\<open>call_text\<close>\<close>
  "text_request prompt =
     \<lparr>model = GROQ_TEXT, content = Text prompt, max_tokens = None, timeout = 45\<rparr>"

definition vision_request :: "string \<Rightarrow> string \<Rightarrow> string \<Rightarrow> groq_request" where
  \<comment> \<open>the request of \<^verbatim>\<open>call_vision\<close>, the image inlined as a data URL\<close>
  "vision_request mime b64 prompt =
     \<lparr>model = GROQ_VISION, content = ImageAndText (''data:'' @ mime @ '';base64,'' @ b64) prompt,
      max_tokens = Some 1200, timeout = 90\<rparr>"

definition call_text :: "env \<Rightarrow> string \<Rightarrow> world \<Rightarrow> string \<times> world" where
  "call_text env prompt w =
     (if GROQ_KEY env = [] then (KEY_MISSING, w)
      else (case requests_post env (text_request prompt) w of
              (Inr c, w') \<Rightarrow> (strip_md c, w')
            | (Inl (Timeout m), w') \<Rightarrow> (TIMED_OUT, w')
            | (Inl e, w') \<Rightarrow> (''API Error: '' @ str_exn e, w')))"

definition MIME :: "(string \<times> string) list" where
  "MIME = [(''jpg'', ''image/jpeg''), (''jpeg'', ''image/jpeg''), (''png'', ''image/png''),
           (''webp'', ''image/webp''), (''gif'', ''image/gif'')]"

definition open_read :: "world \<Rightarrow> string \<Rightarrow> exn + string" where
  \<comment> \<open>\<^verbatim>\<open>open(path, "rb").read()\<close>\<close>
  "open_read w path =
     (case files w path of
        None \<Rightarrow> Inl (OtherException ''[Errno 2] No such file or directory'')
      | Some b \<Rightarrow> Inr b)"

definition vision_try :: "env \<Rightarrow> string \<Rightarrow> string \<Rightarrow> world \<Rightarrow> (exn + string) \<times> world" where
  \<comment> \<open>the \<^verbatim>\<open>try\<close> block of \<^verbatim>\<open>call_vision\<close>\<close>
  "vision_try env prompt img_path w =
     (let ext = lower (last (rsplit1 CHR ''.'' img_path));
          mime = (case map_of MIME ext of Some m \<Rightarrow> m | None \<Rightarrow> ''image/jpeg'')
      in case open_read w img_path of
           Inl e \<Rightarrow> (Inl e, w)
         | Inr bytes \<Rightarrow>
             (case requests_post env (vision_request mime (b64encode env bytes) prompt) w of
                (Inl e, w') \<Rightarrow> (Inl e, w')
              | (Inr c, w') \<Rightarrow> (Inr (strip_md c), w')))"

definition call_vision :: "env \<Rightarrow> string \<Rightarrow> string \<Rightarrow> world \<Rightarrow> string \<times> world" where
  "call_vision env prompt img_path w =
     (if GROQ_KEY env = [] then (KEY_MISSING, w)
      else (case vision_try env prompt img_path w of
              (Inr t, w') \<Rightarrow> (t, w')
            | (Inl e, w') \<Rightarrow> call_text env prompt w'))"

section \<open>Persistence\<close>

definition save_rec :: "env \<Rightarrow> nat option \<Rightarrow> nat option \<Rightarrow> string \<Rightarrow> (string \<times> pyval) list \<Rightarrow> string \<Rightarrow> world \<Rightarrow> world" where
  \<comment> \<open>an exception of the insert is printed and swallowed\<close>
  "save_rec env uid pid rtype idata resp w =
     (case db_fault env AiRecommendations of
        Some e \<Rightarrow> w
      | None \<Rightarrow>
          w\<lparr>ai_recommendations := ai_recommendations w @
               [\<lparr>r_id = seq_recs w + 1, r_user_id = uid, r_profile_id = pid, r_request_type = rtype,
                 r_input_data = str_dict env idata, r_ai_response = resp, r_created_at = now env\<rparr>],
            seq_recs := seq_recs w + 1\<rparr>)"

text \<open>
  A string bound to a column declared \<^verbatim>\<open>INTEGER\<close>: SQLite stores an integer if the string,
  without the white space around it, is an optional sign and decimal digits that denote a
  number of 64 bits.
\<close>

definition sqlite_space :: "char \<Rightarrow> bool" where
  "sqlite_space c = (c \<in> set [CHR 0x09, CHR 0x0A, CHR 0x0B, CHR 0x0C, CHR 0x0D, CHR 0x20])"

definition is_digit :: "char \<Rightarrow> bool" where
  "is_digit c = (48 \<le> (of_char c :: nat) \<and> (of_char c :: nat) \<le> 57)"

definition digits_value :: "string \<Rightarrow> int" where
  "digits_value ds = foldl (\<lambda>n c. 10 * n + (of_char c - 48)) 0 ds"

definition integer_literal :: "string \<Rightarrow> int option" where
  "integer_literal s =
     (let t = rev (dropWhile sqlite_space (rev (dropWhile sqlite_space s)));
          neg = (take 1 t = ''-'');
          ds = (if take 1 t = ''-'' \<or> take 1 t = ''+'' then drop 1 t else t)
      in if ds \<noteq> [] \<and> list_all is_digit ds
         then Some (if neg then - digits_value ds else digits_value ds)
         else None)"

definition integer_affinity :: "env \<Rightarrow> string \<Rightarrow> sql_value" where
  "integer_affinity env s =
     (case integer_literal s of
        Some n \<Rightarrow> if - (2 ^ 63) \<le> n \<and> n < 2 ^ 63 then SqlInteger n else numeric_text env s
      | None \<Rightarrow> numeric_text env s)"

definition insert_profile :: "env \<Rightarrow> nat option \<Rightarrow> string \<Rightarrow> string \<Rightarrow> string \<Rightarrow> string \<Rightarrow> string \<Rightarrow> string \<Rightarrow> world \<Rightarrow> (exn + nat) \<times> world" where
  \<comment> \<open>the \<^verbatim>\<open>INSERT INTO fashion_profiles\<close> of \<^verbatim>\<open>get_recommendation\<close>, with \<^verbatim>\<open>cur.lastrowid\<close>\<close>
  "insert_profile env uid gender age size' culture_style dress_style photo_path w =
     (case db_fault env FashionProfiles of
        Some e \<Rightarrow> (Inl e, w)
      | None \<Rightarrow>
          (Inr (seq_profiles w + 1),
           w\<lparr>fashion_profiles := fashion_profiles w @
                [\<lparr>p_id = seq_profiles w + 1, p_user_id = uid, p_gender = gender,
                  p_age = integer_affinity env age, p_size = size', p_culture_style = culture_style, p_dress_style = dress_style,
                  p_photo_path = photo_path, p_created_at = now env\<rparr>],
             seq_profiles := seq_profiles w + 1\<rparr>))"

definition unique_ok :: "string option \<Rightarrow> string option list \<Rightarrow> bool" where
  \<comment> \<open>a \<^verbatim>\<open>UNIQUE\<close> column accepts a new value that is \<^verbatim>\<open>NULL\<close> or not yet in the column\<close>
  "unique_ok v col = (v = None \<or> v \<notin> set col)"

definition insert_user :: "env \<Rightarrow> string \<Rightarrow> string option \<Rightarrow> string option \<Rightarrow> string \<Rightarrow> world \<Rightarrow> (exn + nat) \<times> world" where
  \<comment> \<open>the \<^verbatim>\<open>INSERT INTO users\<close> of \<^verbatim>\<open>signup\<close>, with \<^verbatim>\<open>cur.lastrowid\<close>\<close>
  "insert_user env name phone email password w =
     (case db_fault env Users of
        Some e \<Rightarrow> (Inl e, w)
      | None \<Rightarrow>
          if \<not> unique_ok phone (map u_phone (users w)) then
            (Inl (IntegrityError ''UNIQUE constraint failed: users.phone''), w)
          else if \<not> unique_ok email (map u_email (users w)) then
            (Inl (IntegrityError ''UNIQUE constraint failed: users.email''), w)
          else
            (Inr (seq_users w + 1),
             w\<lparr>users := users w @
                  [\<lparr>u_id = seq_users w + 1, u_name = name, u_phone = phone, u_email = email,
                    u_password = password, u_created_at = now env\<rparr>],
               seq_users := seq_users w + 1\<rparr>))"

section \<open>Prompts\<close>

definition em_dash :: string where
  \<comment> \<open>U+2014\<close>
  "em_dash = [CHR 0xE2, CHR 0x80, CHR 0x94]"

definition outfit_prompt :: "bool \<Rightarrow> string \<Rightarrow> string \<Rightarrow> string \<Rightarrow> string \<Rightarrow> string \<Rightarrow> string" where
  "outfit_prompt has_photo gender age size' culture_style dress_style =
     ''You are an expert fashion stylist with deep knowledge of global trends.\<newline>''
   @ (if has_photo
      then ''Carefully study the uploaded photo '' @ em_dash
           @ '' note skin tone, body type, hair, and current style.''
      else [])
   @ ''\<newline>\<newline>Customer Profile:\<newline>''
   @ ''- Gender: '' @ gender @ ''\<newline>''
   @ ''- Age: '' @ age @ ''\<newline>''
   @ ''- Size: '' @ size' @ ''\<newline>''
   @ ''- Cultural Style: '' @ culture_style @ ''\<newline>''
   @ ''- Desired Style: '' @ dress_style @ ''\<newline>\<newline>''
   @ ''Provide a complete personalised styling report:\<newline>\<newline>''
   @ ''1. OUTFIT RECOMMENDATIONS (5 outfits):\<newline>''
   @ ''   Name, description of top/bottom/shoes, and why it suits this person.\<newline>\<newline>''
   @ ''2. COLOUR PALETTE (3 combinations):\<newline>''
   @ ''   Primary, secondary, accent '' @ em_dash @ '' and why they work for this profile.\<newline>\<newline>''
   @ ''3. ACCESSORIES (2 suggestions):\<newline>''
   @ ''   Specific items with brands if possible.\<newline>\<newline>''
   @ ''4. STYLING TIP:\<newline>''
   @ ''   One powerful personalised tip'' @ (if has_photo then ''based on the photo'' else []) @ ''.\<newline>\<newline>''
   @ ''Be warm, specific, and encouraging.''"

definition pitch_prompt :: "string \<Rightarrow> string \<Rightarrow> string" where
  "pitch_prompt product customer =
     ''You are a luxury fashion copywriter.\<newline>''
   @ ''Outfit/Collection: '' @ product @ ''\<newline>''
   @ ''Target Customer: '' @ (if customer = [] then ''Fashion-forward individuals'' else customer)
   @ ''\<newline>\<newline>''
   @ ''Write a compelling fashion pitch:\<newline>''
   @ ''1. ELEVATOR PITCH: 2-3 vivid sentences.\<newline>''
   @ ''2. VALUE PROPOSITION: Why this is perfect for this customer.\<newline>''
   @ ''3. KEY DIFFERENTIATORS: 3 standout features.\<newline>''
   @ ''4. CALL TO ACTION: A warm, motivating closing line.''"

definition lead_score_prompt :: "string \<Rightarrow> string \<Rightarrow> string \<Rightarrow> string \<Rightarrow> string" where
  "lead_score_prompt name budget need urgency =
     ''You are an AI fashion consultant.\<newline>''
   @ ''Customer: '' @ name @ '' | Budget: '' @ budget @ '' | Occasion: '' @ need
   @ '' | Timeline: '' @ urgency @ ''\<newline>\<newline>''
   @ ''Give a STYLE FIT SCORE (0-100):\<newline>''
   @ ''1. Budget Fit (0-25 pts)\<newline>''
   @ ''2. Occasion Fit (0-25 pts)\<newline>''
   @ ''3. Urgency Score (0-25 pts)\<newline>''
   @ ''4. Personalisation (0-25 pts)\<newline>\<newline>''
   @ ''Include:\<newline>''
   @ ''- TOTAL SCORE: X / 100\<newline>''
   @ ''- One-sentence reasoning per dimension\<newline>''
   @ ''- TIER: HOT (90-100) / WARM (75-89) / MODERATE (60-74) / COLD (below 60)\<newline>''
   @ ''- Match probability: X%\<newline>''
   @ ''- One personalised styling suggestion''"

definition campaign_prompt :: "string \<Rightarrow> string \<Rightarrow> string \<Rightarrow> string" where
  "campaign_prompt product audience platform =
     ''You are a fashion marketing strategist.\<newline>''
   @ ''Product: '' @ product @ '' | Audience: ''
   @ (if audience = [] then ''Fashion enthusiasts'' else audience)
   @ '' | Platform: '' @ platform @ ''\<newline>\<newline>''
   @ ''Create a full marketing campaign:\<newline>''
   @ ''1. CAMPAIGN OBJECTIVE\<newline>''
   @ ''2. 5 CONTENT IDEAS for '' @ platform @ ''\<newline>''
   @ ''3. 3 AD COPIES (Emotional / Trend-focused / Urgency-driven)\<newline>''
   @ ''4. 3 CALL-TO-ACTION options\<newline>''
   @ ''5. HASHTAGS: 6-8 targeted hashtags''"

section \<open>Routes\<close>

text \<open>
  A handler returns \<open>Inr\<close> of its response, or \<open>Inl\<close> of the exception that leaves it
  uncaught, and the state it leaves behind.
\<close>

definition photo_upload :: "env \<Rightarrow> request \<Rightarrow> world \<Rightarrow> (exn + string \<times> bool) \<times> world" where
  \<comment> \<open>the photo block of \<^verbatim>\<open>get_recommendation\<close>: \<open>photo_path\<close> and \<open>has_photo\<close>\<close>
  "photo_upload env req w =
     (case photo req of
        None \<Rightarrow> (Inr ([], False), w)
      | Some (filename, data) \<Rightarrow>
          if filename = [] then (Inr ([], False), w)
          else (case ok_file filename of
                  Inl e \<Rightarrow> (Inl e, w)
                | Inr ok \<Rightarrow>
                    if \<not> ok then (Inr ([], False), w)
                    else (let fname = secure_filename env filename;
                              photo_path = path_join (UPLOAD_FOLDER env) fname
                          in case save_fault env of
                               Some e \<Rightarrow> (Inl e, w)
                             | None \<Rightarrow>
                                 (Inr (photo_path, True),
                                  w\<lparr>files := (files w)(photo_path \<mapsto> data)\<rparr>))))"

definition get_recommendation_try :: "env \<Rightarrow> request \<Rightarrow> world \<Rightarrow> (exn + response) \<times> world" where
  \<comment> \<open>the \<^verbatim>\<open>try\<close> block of \<^verbatim>\<open>get_recommendation\<close>\<close>
  "get_recommendation_try env req w =
     (case form req of
        Inl e \<Rightarrow> (Inl e, w)
      | Inr f \<Rightarrow>
          (let uid = user_id (session req);
               gender = form_get f ''gender'' ''Not specified'';
               age = form_get f ''age'' ''25'';
               size' = form_get f ''size'' ''M'';
               culture_style = form_get f ''culture_style'' ''Universal'';
               dress_style = form_get f ''dress_style'' ''Casual''
           in case photo_upload env req w of
                (Inl e, w1) \<Rightarrow> (Inl e, w1)
              | (Inr (photo_path, has_photo), w1) \<Rightarrow>
                  (case (if truthy_id uid
                         then (case insert_profile env uid gender age size' culture_style
                                      dress_style photo_path w1 of
                                 (Inl e, w2) \<Rightarrow> (Inl e, w2)
                               | (Inr pid, w2) \<Rightarrow> (Inr (Some pid), w2))
                         else (Inr None, w1)) of
                     (Inl e, w2) \<Rightarrow> (Inl e, w2)
                   | (Inr profile_id, w2) \<Rightarrow>
                       (let prompt = outfit_prompt has_photo gender age size' culture_style dress_style;
                            (result, w3) = (if has_photo then call_vision env prompt photo_path w2
                                            else call_text env prompt w2);
                            w4 = save_rec env uid profile_id ''outfit''
                                   [(''gender'', PStr gender), (''age'', PStr age), (''size'', PStr size'),
                                    (''style'', PStr dress_style), (''photo'', PBool has_photo)]
                                   result w3
                        in (Inr (jsonify (JObj [(''result'', JStr result),
                                                (''photo_analyzed'', JBool has_photo)])), w4)))))"

definition get_recommendation :: "env \<Rightarrow> request \<Rightarrow> world \<Rightarrow> (exn + response) \<times> world" where
  "get_recommendation env req w =
     (case get_recommendation_try env req w of
        (Inr resp, w') \<Rightarrow> (Inr resp, w')
      | (Inl e, w') \<Rightarrow>
          (Inr \<lparr>status = 200,
                body = JObj [(''result'', JStr (''Error: '' @ str_exn e @ ''. Please try again.''))]\<rparr>,
           w'))"

definition generate_pitch :: "env \<Rightarrow> request \<Rightarrow> world \<Rightarrow> (exn + response) \<times> world" where
  "generate_pitch env req w =
     (case form req of
        Inl e \<Rightarrow> (Inl e, w)
      | Inr f \<Rightarrow>
          (let uid = user_id (session req);
               product = strip (form_get f ''product'' []);
               customer = strip (form_get f ''customer'' [])
           in if product = [] then
                (Inr (jsonify (JObj [(''result'',
                        JStr ''Please enter an outfit or collection description.'')])), w)
              else (let prompt = pitch_prompt product customer;
                        (result, w1) = call_text env prompt w;
                        w2 = save_rec env uid None ''pitch''
                               [(''product'', PStr product), (''customer'', PStr customer)] result w1
                    in (Inr (jsonify (JObj [(''result'', JStr result)])), w2))))"

definition lead_score :: "env \<Rightarrow> request \<Rightarrow> world \<Rightarrow> (exn + response) \<times> world" where
  "lead_score env req w =
     (case form req of
        Inl e \<Rightarrow> (Inl e, w)
      | Inr f \<Rightarrow>
          (let uid = user_id (session req);
               name = form_get f ''name'' ''Customer'';
               budget = form_get f ''budget'' ''Not specified'';
               need = form_get f ''need'' ''Not specified'';
               urgency = form_get f ''urgency'' ''Not specified'';
               prompt = lead_score_prompt name budget need urgency;
               (result, w1) = call_text env prompt w;
               w2 = save_rec env uid None ''lead_score''
                      [(''name'', PStr name), (''budget'', PStr budget), (''need'', PStr need)] result w1
           in (Inr (jsonify (JObj [(''result'', JStr result)])), w2)))"

definition generate_campaign :: "env \<Rightarrow> request \<Rightarrow> world \<Rightarrow> (exn + response) \<times> world" where
  "generate_campaign env req w =
     (case form req of
        Inl e \<Rightarrow> (Inl e, w)
      | Inr f \<Rightarrow>
          (let uid = user_id (session req);
               product = strip (form_get f ''product'' []);
               audience = strip (form_get f ''audience'' []);
               platform = strip (form_get f ''platform'' ''Instagram'')
           in if product = [] then
                (Inr (jsonify (JObj [(''result'', JStr ''Please enter a product or collection name.'')])), w)
              else (let prompt = campaign_prompt product audience platform;
                        (result, w1) = call_text env prompt w;
                        w2 = save_rec env uid None ''campaign''
                               [(''product'', PStr product), (''audience'', PStr audience),
                                (''platform'', PStr platform)] result w1
                    in (Inr (jsonify (JObj [(''result'', JStr result)])), w2))))"

subsection \<open>History\<close>

definition select_history :: "world \<Rightarrow> nat option \<Rightarrow> nat \<Rightarrow> rec_row list" where
  \<comment> \<open>\<^verbatim>\<open>FROM ai_recommendations WHERE user_id=? ORDER BY created_at DESC LIMIT n\<close>; rows of
      equal \<^verbatim>\<open>created_at\<close> are kept in insertion order (SQL leaves their order open)\<close>
  "select_history w uid n =
     take n (sort_key (\<lambda>r. - int (r_created_at r))
               (filter (\<lambda>r. uid \<noteq> None \<and> r_user_id r = uid) (ai_recommendations w)))"

definition history_json :: "rec_row \<Rightarrow> json" where
  \<comment> \<open>\<^verbatim>\<open>dict(r)\<close> for a row of \<^verbatim>\<open>SELECT id,request_type,input_data,ai_response,created_at\<close>\<close>
  "history_json r =
     JObj [(''id'', JNum (int (r_id r))), (''request_type'', JStr (r_request_type r)),
           (''input_data'', JStr (r_input_data r)), (''ai_response'', JStr (r_ai_response r)),
           (''created_at'', JNum (int (r_created_at r)))]"

definition NOT_LOGGED_IN :: response where
  "NOT_LOGGED_IN =
     \<lparr>status = 401, body = JObj [(''success'', JBool False), (''message'', JStr ''Not logged in'')]\<rparr>"

definition api_history :: "env \<Rightarrow> request \<Rightarrow> world \<Rightarrow> exn + response" where
  "api_history env req w =
     (let uid = user_id (session req)
      in if \<not> truthy_id uid then Inr NOT_LOGGED_IN
         else (case db_fault env AiRecommendations of
                 Some e \<Rightarrow> Inl e
               | None \<Rightarrow>
                   Inr (jsonify (JObj [(''success'', JBool True),
                          (''history'', JArr (map history_json (select_history w uid 20)))]))))"

subsection \<open>Signup\<close>

definition falsy :: "json \<Rightarrow> bool" where
  \<comment> \<open>\<^verbatim>\<open>not v\<close> for a decoded JSON value\<close>
  "falsy j = (j = JNull \<or> j = JBool False \<or> j = JNum 0 \<or> j = JStr [] \<or> j = JArr [] \<or> j = JObj [])"

definition dict_get :: "json \<Rightarrow> string \<Rightarrow> json \<Rightarrow> exn + json" where
  \<comment> \<open>\<^verbatim>\<open>d.get(key, default)\<close>; only a dict has \<^verbatim>\<open>get\<close>\<close>
  "dict_get d k dflt =
     (case d of
        JObj kvs \<Rightarrow> Inr (case map_of kvs k of None \<Rightarrow> dflt | Some v \<Rightarrow> v)
      | _ \<Rightarrow> Inl (AttributeError ''object has no attribute get''))"

definition get_strip :: "json \<Rightarrow> string \<Rightarrow> exn + string" where
  \<comment> \<open>\<^verbatim>\<open>d.get(key, "").strip()\<close>; only a string has \<^verbatim>\<open>strip\<close>\<close>
  "get_strip d k =
     (case dict_get d k (JStr []) of
        Inl e \<Rightarrow> Inl e
      | Inr (JStr s) \<Rightarrow> Inr (strip s)
      | Inr _ \<Rightarrow> Inl (AttributeError ''object has no attribute strip''))"

definition hashpw :: "env \<Rightarrow> json \<Rightarrow> exn + string" where
  \<comment> \<open>\<^verbatim>\<open>hashlib.sha256(pw.encode()).hexdigest()\<close>; only a string has \<^verbatim>\<open>encode\<close>\<close>
  "hashpw env pw =
     (case pw of
        JStr s \<Rightarrow> Inr (sha256_hex env s)
      | _ \<Rightarrow> Inl (AttributeError ''object has no attribute encode''))"

definition or_none :: "string option \<Rightarrow> string option" where
  \<comment> \<open>\<^verbatim>\<open>v or None\<close>\<close>
  "or_none v = (case v of None \<Rightarrow> None | Some s \<Rightarrow> if s = [] then None else Some s)"

definition bad_request :: "string \<Rightarrow> response" where
  "bad_request m = \<lparr>status = 400, body = JObj [(''success'', JBool False), (''message'', JStr m)]\<rparr>"

definition signup :: "env \<Rightarrow> request \<Rightarrow> world \<Rightarrow> (exn + response \<times> session) \<times> world" where
  \<comment> \<open>the response and the session after the request\<close>
  "signup env req w =
     (let d = (if falsy (json_body req) then JObj [] else json_body req)
      in case get_strip d ''name'' of Inl e \<Rightarrow> (Inl e, w) | Inr name \<Rightarrow>
         (case get_strip d ''phone'' of Inl e \<Rightarrow> (Inl e, w) | Inr phone \<Rightarrow>
         (case get_strip d ''email'' of Inl e \<Rightarrow> (Inl e, w) | Inr email \<Rightarrow>
         (case dict_get d ''password'' (JStr []) of Inl e \<Rightarrow> (Inl e, w) | Inr pw \<Rightarrow>
            if phone = [] \<and> email = [] then
              (Inr (bad_request ''Phone or email required'', session req), w)
            else if falsy pw then
              (Inr (bad_request ''Password required'', session req), w)
            else (case db_fault env Users of Some e \<Rightarrow> (Inl e, w) | None \<Rightarrow>
                 (case hashpw env pw of Inl e \<Rightarrow> (Inl e, w) | Inr h \<Rightarrow>
                 (case insert_user env name (or_none (Some phone)) (or_none (Some email)) h w of
                    (Inr uid, w') \<Rightarrow>
                      (Inr (jsonify (JObj [(''success'', JBool True), (''name'', JStr name)]),
                            \<lparr>user_id = Some uid, user_name = Some name\<rparr>), w')
                  | (Inl (IntegrityError m), w') \<Rightarrow>
                      (Inr (bad_request ''Phone/email already registered'', session req), w')
                  | (Inl e, w') \<Rightarrow> (Inl e, w'))))))))"

section \<open>database.py\<close>

definition create_user :: "env \<Rightarrow> string \<Rightarrow> string option \<Rightarrow> string option \<Rightarrow> string \<Rightarrow> world \<Rightarrow> (exn + bool \<times> (nat + string)) \<times> world" where
  \<comment> \<open>returns \<^verbatim>\<open>(True, uid)\<close> or \<^verbatim>\<open>(False, message)\<close>\<close>
  "create_user env name phone email password w =
     (case insert_user env name (or_none phone) (or_none email) (sha256_hex env password) w of
        (Inr uid, w') \<Rightarrow> (Inr (True, Inl uid), w')
      | (Inl (IntegrityError m), w') \<Rightarrow> (Inr (False, Inr ''Phone or email already registered.''), w')
      | (Inl e, w') \<Rightarrow> (Inl e, w'))"

definition save_fashion_profile :: "env \<Rightarrow> nat option \<Rightarrow> string \<Rightarrow> string \<Rightarrow> string \<Rightarrow> string \<Rightarrow> string \<Rightarrow> string \<Rightarrow> world \<Rightarrow> (exn + nat) \<times> world" where
  "save_fashion_profile env uid gender age size' culture_style dress_style photo_path w =
     insert_profile env uid gender age size' culture_style dress_style photo_path w"

definition get_recommendations_by_user :: "env \<Rightarrow> nat option \<Rightarrow> nat \<Rightarrow> world \<Rightarrow> exn + rec_row list" where
  "get_recommendations_by_user env uid limit w =
     (case db_fault env AiRecommendations of
        Some e \<Rightarrow> Inl e
      | None \<Rightarrow> Inr (select_history w uid limit))"

section \<open>Sample inputs\<close>

definition env0 :: env where
  \<comment> \<open>a key is configured, every external call succeeds, the completion service answers \<open>ok\<close>\<close>
  "env0 = \<lparr>GROQ_KEY = ''k'', UPLOAD_FOLDER = ''/app/static/uploads'',
            http_post = (\<lambda>rq. Inr ''ok''), save_fault = None, db_fault = (\<lambda>t. None), now = 100,
            numeric_text = SqlText,
            sha256_hex = (\<lambda>s. s), secure_filename = (\<lambda>s. s), b64encode = (\<lambda>s. s),
            str_dict = (\<lambda>kvs. concat (map fst kvs))\<rparr>"

definition w0 :: world where
  \<comment> \<open>the empty database\<close>
  "w0 = \<lparr>users = [], fashion_profiles = [], ai_recommendations = [], seq_users = 0,
          seq_profiles = 0, seq_recs = 0, files = Map.empty, http_log = []\<rparr>"

definition anonymous :: session where
  "anonymous = \<lparr>user_id = None, user_name = None\<rparr>"

definition req0 :: request where
  \<comment> \<open>an anonymous request with an empty form, no file and no JSON body\<close>
  "req0 = \<lparr>session = anonymous, form = Inr Map.empty, photo = None, json_body = JNull\<rparr>"

definition env_vision_down :: env where
  \<comment> \<open>the vision model answers 503, the text model answers \<open>ok\<close>\<close>
  "env_vision_down =
     env0\<lparr>http_post := (\<lambda>rq. if model rq = GROQ_VISION
                                then Inl (OtherException ''503 Server Error'') else Inr ''ok'')\<rparr>"

definition env_vision_timeout :: env where
  \<comment> \<open>the vision call times out, the text model answers \<open>ok\<close>\<close>
  "env_vision_timeout =
     env0\<lparr>http_post := (\<lambda>rq. if model rq = GROQ_VISION
                                then Inl (Timeout ''Read timed out.'') else Inr ''ok'')\<rparr>"

definition env_timeout :: env where
  \<comment> \<open>every call to the completion service times out\<close>
  "env_timeout = env0\<lparr>http_post := (\<lambda>rq. Inl (Timeout ''Read timed out.''))\<rparr>"

definition w_img :: world where
  \<comment> \<open>the empty database and one image on disk\<close>
  "w_img = w0\<lparr>files := [''a.png'' \<mapsto> ''img'']\<rparr>"

definition req_too_large :: request where
  \<comment> \<open>a request whose body exceeds \<^verbatim>\<open>MAX_CONTENT_LENGTH\<close>: reading the form raises\<close>
  "req_too_large = req0\<lparr>form := Inl (OtherException ''413 Request Entity Too Large'')\<rparr>"

definition env_down :: env where
  \<comment> \<open>the completion service, the upload and the database all fail\<close>
  "env_down =
     env0\<lparr>http_post := (\<lambda>rq. Inl (OtherException ''503 Server Error'')),
           save_fault := Some (OtherException ''disk full''),
           db_fault := (\<lambda>t. Some (OtherException ''database is locked''))\<rparr>"

definition user1 :: session where
  "user1 = \<lparr>user_id = Some 1, user_name = Some ''Asha''\<rparr>"

definition profile_form :: "string \<rightharpoonup> string" where
  "profile_form = [''gender'' \<mapsto> ''Female'', ''age'' \<mapsto> ''028'', ''size'' \<mapsto> ''M'',
                   ''culture_style'' \<mapsto> ''Western'', ''dress_style'' \<mapsto> ''Formal'']"

definition req_anon_profile :: request where
  \<comment> \<open>an anonymous recommendation request with all profile fields\<close>
  "req_anon_profile = req0\<lparr>form := Inr profile_form\<rparr>"

definition req_user_profile :: request where
  \<comment> \<open>the same request from a logged-in user\<close>
  "req_user_profile = req0\<lparr>session := user1, form := Inr profile_form\<rparr>"

definition nbsp_blank :: string where
  \<comment> \<open>U+00A0, a blank and U+3000\<close>
  "nbsp_blank = [CHR 0xC2, CHR 0xA0, CHR 0x20, CHR 0xE3, CHR 0x80, CHR 0x80]"

definition req_blank_product :: request where
  \<comment> \<open>a request whose product is whitespace only\<close>
  "req_blank_product = req0\<lparr>form := Inr [''product'' \<mapsto> nbsp_blank]\<rparr>"

definition w_many :: world where
  \<comment> \<open>22 stored recommendations of user 1, one per second, and one of user 2\<close>
  "w_many =
     w0\<lparr>ai_recommendations :=
          map (\<lambda>i. \<lparr>r_id = i, r_user_id = Some 1, r_profile_id = None, r_request_type = ''pitch'',
                     r_input_data = ''a'', r_ai_response = ''x'', r_created_at = 100 + i\<rparr>)
              [1..<23] @
          [\<lparr>r_id = 23, r_user_id = Some 2, r_profile_id = None, r_request_type = ''pitch'',
            r_input_data = ''b'', r_ai_response = ''y'', r_created_at = 200\<rparr>],
         seq_recs := 23\<rparr>"

section \<open>Predicates of the specification\<close>

fun result_text :: "json \<Rightarrow> string option" where
  \<comment> \<open>the text under the key \<^verbatim>\<open>result\<close> at the head of a JSON object\<close>
  "result_text (JObj ((k, JStr t) # rest)) = (if k = ''result'' then Some t else None)"
| "result_text _ = None"

definition answers_200 :: "exn + response \<Rightarrow> bool" where
  \<comment> \<open>the handler returns a response with status 200 whose body carries a result text\<close>
  "answers_200 r =
     (case r of
        Inl e \<Rightarrow> False
      | Inr resp \<Rightarrow> status resp = 200 \<and> result_text (body resp) \<noteq> None)"

definition field_is :: "(string \<rightharpoonup> string) \<Rightarrow> string \<Rightarrow> string \<Rightarrow> string \<Rightarrow> bool" where
  \<comment> \<open>the form field has the given value, or it is absent and the value is the default\<close>
  "field_is f k d v = (f k = Some v \<or> (f k = None \<and> v = d))"

definition profile_fields :: "(string \<rightharpoonup> string) \<Rightarrow> string \<Rightarrow> string \<Rightarrow> string \<Rightarrow> string \<Rightarrow> string \<Rightarrow> bool" where
  \<comment> \<open>the profile fields of a recommendation request, with their defaults\<close>
  "profile_fields f gender age size' culture_style dress_style =
     (field_is f ''gender'' ''Not specified'' gender \<and> field_is f ''age'' ''25'' age \<and>
      field_is f ''size'' ''M'' size' \<and> field_is f ''culture_style'' ''Universal'' culture_style \<and>
      field_is f ''dress_style'' ''Casual'' dress_style)"

definition has_text :: "(string \<times> json) list \<Rightarrow> string \<Rightarrow> string \<Rightarrow> bool" where
  \<comment> \<open>the field of a JSON object is the given string, or it is absent and the string is empty\<close>
  "has_text kvs k v = (map_of kvs k = Some (JStr v) \<or> (map_of kvs k = None \<and> v = []))"

text \<open>A user who registers with a phone number only, or with an email address only.\<close>

datatype contact = PhoneOnly string | EmailOnly string

definition signup_request :: "contact \<Rightarrow> string \<Rightarrow> request" where
  \<comment> \<open>the signup request of such a user: one contact field and a password\<close>
  "signup_request c pw =
     req0\<lparr>json_body :=
            JObj [(case c of PhoneOnly p \<Rightarrow> (''phone'', JStr p) | EmailOnly e \<Rightarrow> (''email'', JStr e)),
                  (''password'', JStr pw)]\<rparr>"

fun signup_each :: "env \<Rightarrow> request list \<Rightarrow> world \<Rightarrow> (exn + response \<times> session) list \<times> world" where
  \<comment> \<open>the requests handled one after the other: the results and the final state\<close>
  "signup_each env [] w = ([], w)"
| "signup_each env (r # rs) w =
     (case signup env r w of
        (res, w1) \<Rightarrow> (case signup_each env rs w1 of (ress, w2) \<Rightarrow> (res # ress, w2)))"

definition registered :: "exn + response \<times> session \<Rightarrow> bool" where
  \<comment> \<open>the signup succeeded: status 200 and a session for the new user\<close>
  "registered r = (case r of Inl e \<Rightarrow> False | Inr (resp, s) \<Rightarrow> status resp = 200 \<and> user_id s \<noteq> None)"

fun phones :: "contact list \<Rightarrow> string list" where
  \<comment> \<open>the phone numbers of the list, as \<^verbatim>\<open>signup\<close> trims them\<close>
  "phones [] = []"
| "phones (PhoneOnly p # cs) = strip p # phones cs"
| "phones (EmailOnly e # cs) = phones cs"

fun emails :: "contact list \<Rightarrow> string list" where
  "emails [] = []"
| "emails (PhoneOnly p # cs) = emails cs"
| "emails (EmailOnly e # cs) = strip e # emails cs"

definition fresh :: "contact list \<Rightarrow> world \<Rightarrow> bool" where
  \<comment> \<open>no contact of the list is blank, given twice, or registered already\<close>
  "fresh cs w =
     (distinct (phones cs) \<and> distinct (emails cs) \<and> [] \<notin> set (phones cs) \<and> [] \<notin> set (emails cs) \<and>
      (\<forall>p \<in> set (phones cs). Some p \<notin> set (map u_phone (users w))) \<and>
      (\<forall>e \<in> set (emails cs). Some e \<notin> set (map u_email (users w))))"

definition w_users :: world where
  \<comment> \<open>one registered user, without a phone number\<close>
  "w_users =
     w0\<lparr>users := [\<lparr>u_id = 1, u_name = ''Bea'', u_phone = None, u_email = Some ''bea@example.org'',
                    u_password = ''h'', u_created_at = 50\<rparr>],
         seq_users := 1\<rparr>"

definition four_contacts :: "contact list" where
  "four_contacts = [EmailOnly ''a@example.org'', PhoneOnly ''555 0100'',
                    EmailOnly '' c@example.org '', PhoneOnly ''555 0101'']"

definition req_both_blank :: request where
  \<comment> \<open>a signup whose phone and email are both blank\<close>
  "req_both_blank =
     req0\<lparr>json_body := JObj [(''phone'', JStr nbsp_blank), (''email'', JStr ''  ''),
                             (''password'', JStr ''pw'')]\<rparr>"

definition req_taken_email :: request where
  \<comment> \<open>a signup with the email address of the user in \<open>w_users\<close>\<close>
  "req_taken_email =
     req0\<lparr>json_body := JObj [(''email'', JStr ''bea@example.org''), (''password'', JStr ''pw'')]\<rparr>"

definition req_email_only :: request where
  \<comment> \<open>a signup with a blank phone number\<close>
  "req_email_only =
     req0\<lparr>json_body := JObj [(''name'', JStr ''Ada''), (''phone'', JStr nbsp_blank),
                             (''email'', JStr '' ada@example.org''), (''password'', JStr ''pw'')]\<rparr>"







section \<open>Properties of the completion client\<close>

lemma fst_call_text_world: "fst (call_text env prompt w) = fst (call_text env prompt w')"
  by (simp add: call_text_def requests_post_def split: sum.splits exn.splits)

lemma strip_md_ok: "strip_md ''ok'' = ''ok''"
  by code_simp

lemma requests_post_fst: "fst (requests_post env rq w) = http_post env rq"
  by (simp add: requests_post_def)

lemma requests_post_snd: "snd (requests_post env rq w) = w\<lparr>http_log := http_log w @ [rq]\<rparr>"
  by (simp add: requests_post_def)

text \<open>
  C9. Without an API key both entry points return the same fixed string and leave the
  state, with the log of requests sent to the completion service, as it was. Both are total
  functions to a string: no exception leaves them.
\<close>

theorem no_key_advisory:
  "GROQ_KEY env = [] \<Longrightarrow>
     call_text env prompt w = (KEY_MISSING, w) \<and>
     call_vision env prompt img_path w = (KEY_MISSING, w)"
  by (simp add: call_text_def call_vision_def)

theorem no_key_advisory_witness:
  "GROQ_KEY (env0\<lparr>GROQ_KEY := []\<rparr>) = [] \<and>
   call_text (env0\<lparr>GROQ_KEY := []\<rparr>) ''hello'' w0 = (KEY_MISSING, w0) \<and>
   call_vision (env0\<lparr>GROQ_KEY := []\<rparr>) ''hello'' ''a.png'' w0 = (KEY_MISSING, w0)"
  using no_key_advisory [of "env0\<lparr>GROQ_KEY := []\<rparr>" "''hello''" w0 "''a.png''"]
  by (simp add: env0_def)

text \<open>
  C3, as claimed, fails for \<open>call_vision\<close>: its handler catches every exception alike, so
  a timeout of the vision call is answered by the text call, here with \<open>ok\<close>.
\<close>

theorem vision_timeout_counterexample:
  "fst (vision_try env_vision_timeout ''hi'' ''a.png'' w_img) = Inl (Timeout ''Read timed out.'') \<and>
   fst (call_vision env_vision_timeout ''hi'' ''a.png'' w_img) = ''ok'' \<and>
   ''ok'' \<noteq> ''Request timed out. Please try again.''"
  by (simp add: call_vision_def call_text_def vision_try_def env_vision_timeout_def w_img_def
      env0_def open_read_def requests_post_def Let_def GROQ_VISION_def GROQ_TEXT_def
      text_request_def vision_request_def strip_md_ok)

text \<open>
  C3, amended. With a key configured, \<open>call_text\<close> returns the timed-out message when its
  call times out. \<open>call_vision\<close> has no timeout case of its own: when its call times out it
  continues as \<open>call_text\<close> on the same prompt and returns what \<open>call_text\<close> returns for
  that prompt, which is the timed-out message when the text call times out as well.
\<close>

theorem timeout_message:
  "GROQ_KEY env \<noteq> [] \<Longrightarrow>
     (http_post env \<lparr>model = ''llama-3.3-70b-versatile'', content = Text prompt,
                     max_tokens = None, timeout = 45\<rparr> = Inl (Timeout m) \<longrightarrow>
        fst (call_text env prompt w) = ''Request timed out. Please try again.'') \<and>
     (vision_try env prompt img_path w = (Inl (Timeout m'), w') \<longrightarrow>
        call_vision env prompt img_path w = call_text env prompt w' \<and>
        fst (call_vision env prompt img_path w) = fst (call_text env prompt w)) \<and>
     (vision_try env prompt img_path w = (Inl (Timeout m'), w') \<and>
      http_post env \<lparr>model = ''llama-3.3-70b-versatile'', content = Text prompt,
                     max_tokens = None, timeout = 45\<rparr> = Inl (Timeout m) \<longrightarrow>
        fst (call_vision env prompt img_path w) = ''Request timed out. Please try again.'')"
  using fst_call_text_world [of env prompt w' w]
  by (simp add: call_text_def call_vision_def requests_post_def text_request_def GROQ_TEXT_def
      TIMED_OUT_def)

theorem timeout_message_witness:
  "GROQ_KEY env_timeout \<noteq> [] \<and>
   http_post env_timeout \<lparr>model = ''llama-3.3-70b-versatile'', content = Text ''hi'',
                           max_tokens = None, timeout = 45\<rparr> = Inl (Timeout ''Read timed out.'') \<and>
   fst (call_text env_timeout ''hi'' w_img) = ''Request timed out. Please try again.'' \<and>
   vision_try env_timeout ''hi'' ''a.png'' w_img =
     (Inl (Timeout ''Read timed out.''), snd (vision_try env_timeout ''hi'' ''a.png'' w_img)) \<and>
   call_vision env_timeout ''hi'' ''a.png'' w_img =
     call_text env_timeout ''hi'' (snd (vision_try env_timeout ''hi'' ''a.png'' w_img)) \<and>
   fst (call_vision env_timeout ''hi'' ''a.png'' w_img) = ''Request timed out. Please try again.''"
proof -
  have k: "GROQ_KEY env_timeout \<noteq> []"
    by (simp add: env_timeout_def env0_def)
  have p: "http_post env_timeout \<lparr>model = ''llama-3.3-70b-versatile'', content = Text ''hi'',
                           max_tokens = None, timeout = 45\<rparr> = Inl (Timeout ''Read timed out.'')"
    by (simp add: env_timeout_def)
  have v: "vision_try env_timeout ''hi'' ''a.png'' w_img =
     (Inl (Timeout ''Read timed out.''), snd (vision_try env_timeout ''hi'' ''a.png'' w_img))"
    by (simp add: vision_try_def env_timeout_def w_img_def w0_def open_read_def
        requests_post_def Let_def)
  note a = timeout_message [OF k, where prompt = "''hi''" and m = "''Read timed out.''"
      and w = w_img and img_path = "''a.png''" and m' = "''Read timed out.''"
      and w' = "snd (vision_try env_timeout ''hi'' ''a.png'' w_img)"]
  show ?thesis using k p v a by blast
qed

text \<open>
  C4. With a key configured, whenever the attempt of \<open>call_vision\<close> raises (whatever the
  exception, so for every failure that is not a timeout), \<open>call_vision\<close> raises nothing and
  continues as \<open>call_text\<close> on the same prompt; the text it returns is the text \<open>call_text\<close>
  returns for that prompt. A missing image is such a failure.
\<close>

theorem vision_failure_falls_back:
  "GROQ_KEY env \<noteq> [] \<Longrightarrow>
     (vision_try env prompt img_path w = (Inl e, w') \<longrightarrow>
        call_vision env prompt img_path w = call_text env prompt w' \<and>
        fst (call_vision env prompt img_path w) = fst (call_text env prompt w)) \<and>
     (files w img_path = None \<longrightarrow>
        call_vision env prompt img_path w = call_text env prompt w)"
  using fst_call_text_world [of env prompt w' w]
  by (simp add: call_vision_def vision_try_def open_read_def Let_def)

theorem vision_failure_falls_back_witness:
  "GROQ_KEY env_vision_down \<noteq> [] \<and>
   vision_try env_vision_down ''hi'' ''a.png'' w_img =
     (Inl (OtherException ''503 Server Error''), snd (vision_try env_vision_down ''hi'' ''a.png'' w_img)) \<and>
   call_vision env_vision_down ''hi'' ''a.png'' w_img =
     call_text env_vision_down ''hi'' (snd (vision_try env_vision_down ''hi'' ''a.png'' w_img)) \<and>
   fst (call_vision env_vision_down ''hi'' ''a.png'' w_img) =
     fst (call_text env_vision_down ''hi'' w_img) \<and>
   files w0 ''a.png'' = None \<and>
   call_vision env_vision_down ''hi'' ''a.png'' w0 = call_text env_vision_down ''hi'' w0"
proof -
  have k: "GROQ_KEY env_vision_down \<noteq> []"
    by (simp add: env_vision_down_def env0_def)
  have v: "vision_try env_vision_down ''hi'' ''a.png'' w_img =
     (Inl (OtherException ''503 Server Error''), snd (vision_try env_vision_down ''hi'' ''a.png'' w_img))"
    by (simp add: vision_try_def env_vision_down_def w_img_def w0_def open_read_def
        requests_post_def vision_request_def Let_def)
  have f: "files w0 ''a.png'' = None"
    by (simp add: w0_def)
  note a = vision_failure_falls_back [OF k, of "''hi''" "''a.png''" w_img
        "OtherException ''503 Server Error''"
        "snd (vision_try env_vision_down ''hi'' ''a.png'' w_img)"]
  note b = vision_failure_falls_back [OF k, of "''hi''" "''a.png''" w0]
  show ?thesis
    using k v f a b by blast
qed

section \<open>Properties of strip_md\<close>














section \<open>Properties of the upload check\<close>

lemma rsplit1_decomp:
  assumes "sep \<in> set s"
  shows "\<exists>base ext. rsplit1 sep s = [base, ext] \<and> s = base @ sep # ext \<and> sep \<notin> set ext"
proof -
  let ?P = "\<lambda>c. c \<noteq> sep"
  let ?ext = "rev (takeWhile ?P (rev s))"
  let ?d = "dropWhile ?P (rev s)"
  have ne: "?d \<noteq> []" using assms by (simp add: dropWhile_eq_Nil_conv) 
  then have hd: "hd ?d = sep" using hd_dropWhile [of ?P "rev s"] by simp
  have "rev s = takeWhile ?P (rev s) @ ?d" by simp
  also have "?d = sep # tl ?d" using ne hd by (cases ?d) auto
  finally have "rev (rev s) = rev (takeWhile ?P (rev s) @ sep # tl ?d)" by simp
  then have "s = rev (tl ?d) @ sep # ?ext" by simp
  moreover have "sep \<notin> set ?ext" using set_takeWhileD [of sep ?P "rev s"] by auto
  moreover have "rsplit1 sep s = [rev (tl ?d), ?ext]" using assms by (simp add: rsplit1_def)
  ultimately show ?thesis by blast
qed

lemma rsplit1_unique:
  assumes "s = base @ sep # ext" "sep \<notin> set ext"
  shows "rsplit1 sep s = [base, ext]"
proof -
  let ?P = "\<lambda>c. c \<noteq> sep"
  have r: "rev s = rev ext @ sep # rev base" using assms(1) by simp
  have t: "takeWhile ?P (rev s) = rev ext"
    unfolding r using assms(2) by (auto simp: takeWhile_tail)
  have d: "dropWhile ?P (rev s) = sep # rev base"
    unfolding r using assms(2) by (auto simp: dropWhile_append3)
  have "sep \<in> set s" using assms(1) by simp
  then show ?thesis by (simp add: rsplit1_def t d)
qed

lemma ok_file_eq:
  "ok_file name = Inr (\<exists>base ext. name = base @ ''.'' @ ext \<and> CHR ''.'' \<notin> set ext \<and> lower ext \<in> ALLOWED)"
proof (cases "CHR ''.'' \<in> set name")
  case True
  from rsplit1_decomp [OF True] obtain base ext where
    r: "rsplit1 CHR ''.'' name = [base, ext]" and n: "name = base @ CHR ''.'' # ext"
    and e: "CHR ''.'' \<notin> set ext" by blast
  have "lower ext \<in> ALLOWED \<longleftrightarrow>
        (\<exists>base' ext'. name = base' @ ''.'' @ ext' \<and> CHR ''.'' \<notin> set ext' \<and> lower ext' \<in> ALLOWED)"
  proof
    assume "lower ext \<in> ALLOWED"
    with n e show "\<exists>base' ext'. name = base' @ ''.'' @ ext' \<and> CHR ''.'' \<notin> set ext' \<and> lower ext' \<in> ALLOWED"
      by auto
  next
    assume "\<exists>base' ext'. name = base' @ ''.'' @ ext' \<and> CHR ''.'' \<notin> set ext' \<and> lower ext' \<in> ALLOWED"
    then obtain base' ext' where n': "name = base' @ CHR ''.'' # ext'"
      and e': "CHR ''.'' \<notin> set ext'" and a: "lower ext' \<in> ALLOWED" by auto
    have "rsplit1 CHR ''.'' name = [base', ext']" using n' e' by (rule rsplit1_unique)
    with r have "ext' = ext" by simp
    with a show "lower ext \<in> ALLOWED" by simp
  qed
  with True r show ?thesis by (simp add: ok_file_def index_def)
next
  case False
  then have "\<not> (\<exists>base ext. name = base @ ''.'' @ ext \<and> CHR ''.'' \<notin> set ext \<and> lower ext \<in> ALLOWED)"
    by auto
  with False show ?thesis by (simp add: ok_file_def)
qed

lemma photo_upload_rejected:
  "ok_file name = Inr False \<Longrightarrow>
     photo_upload env (req\<lparr>photo := Some (name, data)\<rparr>) w = photo_upload env (req\<lparr>photo := None\<rparr>) w"
  by (simp add: photo_upload_def)

lemma get_recommendation_rejected:
  "ok_file name = Inr False \<Longrightarrow>
     get_recommendation env (req\<lparr>photo := Some (name, data)\<rparr>) w
       = get_recommendation env (req\<lparr>photo := None\<rparr>) w"
  by (cases "form req")
     (simp_all add: get_recommendation_def get_recommendation_try_def photo_upload_rejected)

lemma photo_upload_accepted:
  "ok_file name = Inr True \<Longrightarrow> save_fault env = None \<Longrightarrow>
     photo_upload env (req\<lparr>photo := Some (name, data)\<rparr>) w =
       (Inr (path_join (UPLOAD_FOLDER env) (secure_filename env name), True),
        w\<lparr>files := (files w)(path_join (UPLOAD_FOLDER env) (secure_filename env name) \<mapsto> data)\<rparr>)"
  by (auto simp: photo_upload_def ok_file_def Let_def)

text \<open>
  C8. \<open>ok_file\<close> never raises; it accepts a name exactly if the name is \<open>base.ext\<close> for an
  \<open>ext\<close> without a dot whose lower-case form is one of png, jpg, jpeg, webp, gif. So
  \<^verbatim>\<open>photo.png\<close> and \<^verbatim>\<open>IMG.JPEG\<close> are accepted, \<^verbatim>\<open>virus.exe\<close> and \<^verbatim>\<open>noext\<close> are not. For a
  rejected name the recommendation handler does, and answers, exactly what it does without
  a photo; an accepted file is stored under the upload folder and marks the request as
  having a photo.
\<close>

theorem upload_acceptance:
  "ok_file name =
     Inr (\<exists>base ext. name = base @ ''.'' @ ext \<and> CHR ''.'' \<notin> set ext \<and> lower ext \<in> ALLOWED) \<and>
   ok_file ''photo.png'' = Inr True \<and> ok_file ''IMG.JPEG'' = Inr True \<and>
   ok_file ''virus.exe'' = Inr False \<and> ok_file ''noext'' = Inr False \<and>
   (ok_file name = Inr False \<longrightarrow>
      get_recommendation env (req\<lparr>photo := Some (name, data)\<rparr>) w
        = get_recommendation env (req\<lparr>photo := None\<rparr>) w) \<and>
   (ok_file name = Inr True \<and> save_fault env = None \<longrightarrow>
      photo_upload env (req\<lparr>photo := Some (name, data)\<rparr>) w =
        (Inr (path_join (UPLOAD_FOLDER env) (secure_filename env name), True),
         w\<lparr>files := (files w)(path_join (UPLOAD_FOLDER env) (secure_filename env name) \<mapsto> data)\<rparr>))"
proof -
  have 1: "ok_file ''photo.png'' = Inr True" by code_simp
  have 2: "ok_file ''IMG.JPEG'' = Inr True" by code_simp
  have 3: "ok_file ''virus.exe'' = Inr False" by code_simp
  have 4: "ok_file ''noext'' = Inr False" by code_simp
  show ?thesis
    using 1 2 3 4 ok_file_eq [of name] get_recommendation_rejected photo_upload_accepted
    by blast
qed

theorem upload_acceptance_witness:
  "ok_file ''virus.exe'' = Inr False \<and>
   get_recommendation env0 (req0\<lparr>photo := Some (''virus.exe'', ''MZ'')\<rparr>) w0
     = get_recommendation env0 (req0\<lparr>photo := None\<rparr>) w0 \<and>
   ok_file ''photo.png'' = Inr True \<and> save_fault env0 = None \<and>
   photo_upload env0 (req0\<lparr>photo := Some (''photo.png'', ''img'')\<rparr>) w0 =
     (Inr (''/app/static/uploads/photo.png'', True),
      w0\<lparr>files := (files w0)(''/app/static/uploads/photo.png'' \<mapsto> ''img'')\<rparr>)"
proof -
  have s: "save_fault env0 = None" by (simp add: env0_def)
  have p: "path_join (UPLOAD_FOLDER env0) (secure_filename env0 ''photo.png'')
             = ''/app/static/uploads/photo.png''"
    by (simp add: env0_def path_join_def)
  note a = upload_acceptance [where name = "''virus.exe''" and env = env0 and req = req0
      and data = "''MZ''" and w = w0]
  note b = upload_acceptance [where name = "''photo.png''" and env = env0 and req = req0
      and data = "''img''" and w = w0]
  show ?thesis using s a b unfolding p by blast
qed

section \<open>Properties of the generation endpoints\<close>

lemma call_text_world: "\<exists>l. snd (call_text env p w) = w\<lparr>http_log := l\<rparr>"
proof (cases "GROQ_KEY env = []")
  case True
  then have "snd (call_text env p w) = w\<lparr>http_log := http_log w\<rparr>"
    by (simp add: call_text_def)
  then show ?thesis ..
next
  case False
  then have "snd (call_text env p w) = w\<lparr>http_log := http_log w @
      [\<lparr>model = GROQ_TEXT, content = Text p, max_tokens = None, timeout = 45\<rparr>]\<rparr>"
    by (simp add: call_text_def requests_post_def text_request_def split: sum.splits exn.splits)
  then show ?thesis ..
qed

lemma vision_try_world: "\<exists>l. snd (vision_try env p i w) = w\<lparr>http_log := l\<rparr>"
proof (cases "open_read w i")
  case (Inl e)
  then have "snd (vision_try env p i w) = w\<lparr>http_log := http_log w\<rparr>"
    by (simp add: vision_try_def Let_def)
  then show ?thesis ..
next
  case (Inr b)
  then have "\<exists>rq. snd (vision_try env p i w) = w\<lparr>http_log := http_log w @ [rq]\<rparr>"
    by (auto simp add: vision_try_def Let_def requests_post_def split: sum.splits)
  then show ?thesis by blast
qed

lemma call_vision_world: "\<exists>l. snd (call_vision env p i w) = w\<lparr>http_log := l\<rparr>"
proof (cases "GROQ_KEY env = []")
  case True
  then have "snd (call_vision env p i w) = w\<lparr>http_log := http_log w\<rparr>"
    by (simp add: call_vision_def)
  then show ?thesis ..
next
  case False
  obtain r w' where v: "vision_try env p i w = (r, w')" by (cases "vision_try env p i w")
  from vision_try_world [of env p i w] v obtain l where w': "w' = w\<lparr>http_log := l\<rparr>" by auto
  show ?thesis
  proof (cases r)
    case (Inr t)
    with False v w' have "snd (call_vision env p i w) = w\<lparr>http_log := l\<rparr>"
      by (simp add: call_vision_def)
    then show ?thesis ..
  next
    case (Inl e)
    with False v have "snd (call_vision env p i w) = snd (call_text env p w')"
      by (simp add: call_vision_def)
    moreover from call_text_world [of env p w'] obtain l' where "snd (call_text env p w') = w'\<lparr>http_log := l'\<rparr>"
      by blast
    ultimately have "snd (call_vision env p i w) = w\<lparr>http_log := l'\<rparr>" using w' by simp
    then show ?thesis ..
  qed
qed

lemma save_rec_profiles [simp]:
  "fashion_profiles (save_rec env uid pid rtype idata resp w) = fashion_profiles w"
  by (simp add: save_rec_def split: option.splits)

lemma call_text_profiles [simp]: "fashion_profiles (snd (call_text env p w)) = fashion_profiles w"
  using call_text_world [of env p w] by auto

lemma call_vision_profiles [simp]: "fashion_profiles (snd (call_vision env p i w)) = fashion_profiles w"
  using call_vision_world [of env p i w] by auto

lemma photo_upload_profiles [simp]:
  "fashion_profiles (snd (photo_upload env req w)) = fashion_profiles w"
  by (simp add: photo_upload_def Let_def split: option.splits prod.splits sum.splits)

lemma photo_upload_seq [simp]:
  "seq_profiles (snd (photo_upload env req w)) = seq_profiles w"
  by (simp add: photo_upload_def Let_def split: option.splits prod.splits sum.splits)

lemma call_text_recs [simp]:
  "ai_recommendations (snd (call_text env p w)) = ai_recommendations w"
  "seq_recs (snd (call_text env p w)) = seq_recs w"
  using call_text_world [of env p w] by auto

lemma call_vision_recs [simp]:
  "ai_recommendations (snd (call_vision env p i w)) = ai_recommendations w"
  "seq_recs (snd (call_vision env p i w)) = seq_recs w"
  using call_vision_world [of env p i w] by auto

lemma photo_upload_recs [simp]:
  "ai_recommendations (snd (photo_upload env req w)) = ai_recommendations w"
  "seq_recs (snd (photo_upload env req w)) = seq_recs w"
  by (simp_all add: photo_upload_def Let_def split: option.splits prod.splits sum.splits)

lemma try_anonymous:
  "\<not> truthy_id (user_id (session req)) \<Longrightarrow>
     fashion_profiles (snd (get_recommendation_try env req w)) = fashion_profiles w"
proof (cases "form req")
  case (Inl e)
  then show ?thesis by (simp add: get_recommendation_try_def)
next
  case (Inr f)
  assume anon: "\<not> truthy_id (user_id (session req))"
  obtain r w1 where pu: "photo_upload env req w = (r, w1)" by (cases "photo_upload env req w")
  have w1: "fashion_profiles w1 = fashion_profiles w"
    using photo_upload_profiles [of env req w] pu by simp
  show ?thesis
  proof (cases r)
    case (Inl e)
    with Inr pu w1 show ?thesis by (simp add: get_recommendation_try_def)
  next
    case r: (Inr ph)
    with Inr pu w1 anon show ?thesis
      by (cases ph) (simp add: get_recommendation_try_def Let_def case_prod_beta)
  qed
qed

lemma get_recommendation_snd:
  "snd (get_recommendation env req w) = snd (get_recommendation_try env req w)"
  by (simp add: get_recommendation_def split: prod.splits sum.splits)

lemma anonymous_no_profile:
  "\<not> truthy_id (user_id (session req)) \<Longrightarrow>
     fashion_profiles (snd (get_recommendation env req w)) = fashion_profiles w"
  by (simp add: get_recommendation_snd try_anonymous)

lemma logged_in_one_profile:
  assumes "truthy_id (user_id (session req))" "form req = Inr f"
    and "fst (photo_upload env req w) = Inr (photo_path, has_photo)"
    and "db_fault env FashionProfiles = None"
  shows "fashion_profiles (snd (get_recommendation env req w)) =
     fashion_profiles w @
       [\<lparr>p_id = seq_profiles w + 1, p_user_id = user_id (session req),
         p_gender = form_get f ''gender'' ''Not specified'',
            p_age = integer_affinity env (form_get f ''age'' ''25''),
         p_size = form_get f ''size'' ''M'',
         p_culture_style = form_get f ''culture_style'' ''Universal'',
         p_dress_style = form_get f ''dress_style'' ''Casual'',
         p_photo_path = photo_path, p_created_at = now env\<rparr>]"
proof -
  obtain r w1 where pu: "photo_upload env req w = (r, w1)" by (cases "photo_upload env req w")
  have w1: "fashion_profiles w1 = fashion_profiles w" "seq_profiles w1 = seq_profiles w"
    using photo_upload_profiles [of env req w] photo_upload_seq [of env req w] pu by simp_all
  have r: "r = Inr (photo_path, has_photo)" using assms(3) pu by simp
  show ?thesis
    using assms(1,2,4) pu r w1
    by (simp add: get_recommendation_snd get_recommendation_try_def insert_profile_def Let_def
        case_prod_beta)
qed

lemma handlers_propagate:
  "form req = Inl e \<Longrightarrow>
     generate_pitch env req w = (Inl e, w) \<and> lead_score env req w = (Inl e, w) \<and>
     generate_campaign env req w = (Inl e, w)"
  by (simp add: generate_pitch_def lead_score_def generate_campaign_def)

lemma get_recommendation_200: "answers_200 (fst (get_recommendation env req w))"
proof (cases "get_recommendation_try env req w")
  case (Pair r w')
  show ?thesis
  proof (cases r)
    case (Inl e)
    with Pair show ?thesis by (simp add: get_recommendation_def answers_200_def)
  next
    case (Inr resp)
    have "answers_200 (fst (get_recommendation_try env req w))"
    proof (cases "form req")
      case (Inl e)
      with Pair Inr show ?thesis by (simp add: get_recommendation_try_def)
    next
      case f: (Inr f)
      obtain r1 w1 where pu: "photo_upload env req w = (r1, w1)" by (cases "photo_upload env req w")
      show ?thesis
      proof (cases r1)
        case (Inl e)
        with f pu Pair Inr show ?thesis by (simp add: get_recommendation_try_def)
      next
        case r1: (Inr ph)
        with f pu Pair Inr show ?thesis
          by (cases ph)
             (auto simp add: get_recommendation_try_def Let_def case_prod_beta answers_200_def
                jsonify_def insert_profile_def split: if_splits option.splits)
      qed
    qed
    with Pair Inr show ?thesis by (simp add: get_recommendation_def)
  qed
qed

lemma others_200:
  "form req = Inr f \<Longrightarrow>
     answers_200 (fst (generate_pitch env req w)) \<and> answers_200 (fst (lead_score env req w)) \<and>
     answers_200 (fst (generate_campaign env req w))"
  by (simp add: generate_pitch_def lead_score_def generate_campaign_def Let_def case_prod_beta
      answers_200_def jsonify_def)

text \<open>
  C1, as claimed, fails for the three endpoints without a boundary handler: in
  \<open>generate_pitch\<close> the form is read outside any \<^verbatim>\<open>try\<close>, so the exception raised for a
  body beyond \<^verbatim>\<open>MAX_CONTENT_LENGTH\<close> leaves the handler instead of becoming a 200 response.
\<close>

theorem pitch_uncaught_counterexample:
  "form req_too_large = Inl (OtherException ''413 Request Entity Too Large'') \<and>
   fst (generate_pitch env0 req_too_large w0) = Inl (OtherException ''413 Request Entity Too Large'') \<and>
   \<not> answers_200 (fst (generate_pitch env0 req_too_large w0))"
  by (simp add: generate_pitch_def req_too_large_def answers_200_def)

text \<open>
  C1, amended. \<open>get_recommendation\<close> answers 200 with a result text for every request and
  every outcome of the external calls; an exception raised in its sequence becomes the
  text \<^verbatim>\<open>Error: ... Please try again.\<close> The other three endpoints answer 200 with a
  result text whenever the form of the request can be read, whatever the completion
  service and the database do: \<open>call_text\<close> and \<open>save_rec\<close> absorb their own failures.
\<close>

theorem generation_endpoints:
  "answers_200 (fst (get_recommendation env req w)) \<and>
   (get_recommendation_try env req w = (Inl e, w') \<longrightarrow>
      get_recommendation env req w =
        (Inr \<lparr>status = 200,
              body = JObj [(''result'', JStr (''Error: '' @ str_exn e @ ''. Please try again.''))]\<rparr>, w')) \<and>
   (form req = Inr f \<longrightarrow>
      answers_200 (fst (generate_pitch env req w)) \<and>
      answers_200 (fst (lead_score env req w)) \<and>
      answers_200 (fst (generate_campaign env req w)))"
  using get_recommendation_200 [of env req w] others_200 [of req f env w]
  by (simp add: get_recommendation_def)

theorem generation_endpoints_witness:
  "get_recommendation_try env_down req_too_large w0 =
     (Inl (OtherException ''413 Request Entity Too Large''), w0) \<and>
   get_recommendation env_down req_too_large w0 =
     (Inr \<lparr>status = 200,
           body = JObj [(''result'', JStr ''Error: 413 Request Entity Too Large. Please try again.'')]\<rparr>, w0) \<and>
   form req0 = Inr Map.empty \<and>
   answers_200 (fst (generate_pitch env_down req0 w0)) \<and>
   answers_200 (fst (lead_score env_down req0 w0)) \<and>
   answers_200 (fst (generate_campaign env_down req0 w0))"
proof -
  have t: "get_recommendation_try env_down req_too_large w0 =
     (Inl (OtherException ''413 Request Entity Too Large''), w0)"
    by (simp add: get_recommendation_try_def req_too_large_def)
  have f: "form req0 = Inr Map.empty" by (simp add: req0_def)
  note a = generation_endpoints [where env = env_down and req = req_too_large and w = w0
      and e = "OtherException ''413 Request Entity Too Large''" and w' = w0]
  note b = generation_endpoints [where env = env_down and req = req0 and w = w0 and f = Map.empty]
  show ?thesis using t f a b by simp
qed

lemma resp_anon: "fst (get_recommendation env0 req_anon_profile w0) =
     Inr \<lparr>status = 200, body = JObj [(''result'', JStr ''ok''), (''photo_analyzed'', JBool False)]\<rparr>"
  by code_simp

lemma resp_user: "fst (get_recommendation env0 req_user_profile w0) =
     Inr \<lparr>status = 200, body = JObj [(''result'', JStr ''ok''), (''photo_analyzed'', JBool False)]\<rparr>"
  by code_simp

lemma form_get_field: "field_is f k d v \<Longrightarrow> form_get f k d = v"
  by (auto simp: field_is_def form_get_def)

lemma recommendation_stored:
  assumes "form req = Inr f"
    and "photo_upload env req w = (Inr (photo_path, has_photo), w1)"
    and "truthy_id (user_id (session req)) \<longrightarrow> db_fault env FashionProfiles = None"
    and "db_fault env AiRecommendations = None"
  shows "\<exists>result.
     fst (get_recommendation env req w) =
       Inr \<lparr>status = 200,
            body = JObj [(''result'', JStr result), (''photo_analyzed'', JBool has_photo)]\<rparr> \<and>
     ai_recommendations (snd (get_recommendation env req w)) =
       ai_recommendations w @
         [\<lparr>r_id = seq_recs w + 1, r_user_id = user_id (session req),
           r_profile_id = (if truthy_id (user_id (session req)) then Some (seq_profiles w + 1)
                           else None),
           r_request_type = ''outfit'',
           r_input_data = str_dict env
             [(''gender'', PStr (form_get f ''gender'' ''Not specified'')),
              (''age'', PStr (form_get f ''age'' ''25'')),
              (''size'', PStr (form_get f ''size'' ''M'')),
              (''style'', PStr (form_get f ''dress_style'' ''Casual'')),
              (''photo'', PBool has_photo)],
           r_ai_response = result, r_created_at = now env\<rparr>]"
proof -
  have w1: "ai_recommendations w1 = ai_recommendations w" "seq_recs w1 = seq_recs w"
    "seq_profiles w1 = seq_profiles w"
    using photo_upload_recs [of env req w] photo_upload_seq [of env req w] assms(2) by simp_all
  show ?thesis
  proof (cases "truthy_id (user_id (session req))")
    case True
    with assms w1 show ?thesis
      by (simp add: get_recommendation_def get_recommendation_try_def insert_profile_def
          save_rec_def jsonify_def Let_def case_prod_beta)
  next
    case False
    with assms w1 show ?thesis
      by (simp add: get_recommendation_def get_recommendation_try_def save_rec_def jsonify_def
          Let_def case_prod_beta)
  qed
qed

text \<open>
  C2, as claimed, fails for an anonymous caller: the request is answered, but the profile
  is saved only under \<^verbatim>\<open>if uid\<close>, so no row is created.
\<close>

theorem anonymous_profile_counterexample:
  "user_id (session req_anon_profile) = None \<and>
   form req_anon_profile = Inr profile_form \<and>
   answers_200 (fst (get_recommendation env0 req_anon_profile w0)) \<and>
   fashion_profiles (snd (get_recommendation env0 req_anon_profile w0)) = []"
proof -
  have u: "user_id (session req_anon_profile) = None"
    by (simp add: req_anon_profile_def req0_def anonymous_def)
  then have "\<not> truthy_id (user_id (session req_anon_profile))" by (simp add: truthy_id_def)
  then have "fashion_profiles (snd (get_recommendation env0 req_anon_profile w0)) = fashion_profiles w0"
    by (rule anonymous_no_profile)
  moreover have "form req_anon_profile = Inr profile_form" by (simp add: req_anon_profile_def)
  ultimately show ?thesis using u get_recommendation_200 by (simp add: w0_def)
qed

text \<open>
  C2, amended. For an anonymous caller \<open>get_recommendation\<close> creates no profile row, and
  the recommendation row it stores has no profile id. For a logged-in caller whose form can
  be read, whose upload (if any) is stored and whose insert succeeds, it creates exactly one
  profile row, with the caller's id and the fields of the form or their defaults (the age as
  the \<^verbatim>\<open>INTEGER\<close> column stores it), and the recommendation row it stores has the id of
  that profile row. \<open>save_fashion_profile\<close> of database.py creates exactly one row with the
  user id it is given, null included.
\<close>

theorem profile_rows:
  "((user_id (session req) = None \<or> user_id (session req) = Some 0) \<longrightarrow>
      fashion_profiles (snd (get_recommendation env req w)) = fashion_profiles w) \<and>
   (user_id (session req) = Some u \<and> 0 < u \<and> form req = Inr f \<and> profile_fields f gender age size' culture_style dress_style \<and>
    fst (photo_upload env req w) = Inr (photo_path, has_photo) \<and>
    db_fault env FashionProfiles = None \<longrightarrow>
      fashion_profiles (snd (get_recommendation env req w)) =
        fashion_profiles w @
          [\<lparr>p_id = seq_profiles w + 1, p_user_id = Some u, p_gender = gender,
            p_age = integer_affinity env age, p_size = size', p_culture_style = culture_style,
            p_dress_style = dress_style, p_photo_path = photo_path, p_created_at = now env\<rparr>]) \<and>
   ((user_id (session req) = None \<or> user_id (session req) = Some 0) \<and> form req = Inr f \<and> profile_fields f gender age size' culture_style dress_style \<and>
    fst (photo_upload env req w) = Inr (photo_path, has_photo) \<and>
    db_fault env AiRecommendations = None \<longrightarrow>
      (\<exists>result.
         fst (get_recommendation env req w) =
           Inr \<lparr>status = 200,
                body = JObj [(''result'', JStr result), (''photo_analyzed'', JBool has_photo)]\<rparr> \<and>
         ai_recommendations (snd (get_recommendation env req w)) =
           ai_recommendations w @
             [\<lparr>r_id = seq_recs w + 1, r_user_id = user_id (session req), r_profile_id = None,
               r_request_type = ''outfit'',
               r_input_data = str_dict env
                 [(''gender'', PStr gender), (''age'', PStr age), (''size'', PStr size'),
                  (''style'', PStr dress_style), (''photo'', PBool has_photo)],
               r_ai_response = result, r_created_at = now env\<rparr>])) \<and>
   (user_id (session req) = Some u \<and> 0 < u \<and> form req = Inr f \<and> profile_fields f gender age size' culture_style dress_style \<and>
    fst (photo_upload env req w) = Inr (photo_path, has_photo) \<and>
    db_fault env FashionProfiles = None \<and> db_fault env AiRecommendations = None \<longrightarrow>
      (\<exists>result.
         fst (get_recommendation env req w) =
           Inr \<lparr>status = 200,
                body = JObj [(''result'', JStr result), (''photo_analyzed'', JBool has_photo)]\<rparr> \<and>
         ai_recommendations (snd (get_recommendation env req w)) =
           ai_recommendations w @
             [\<lparr>r_id = seq_recs w + 1, r_user_id = Some u, r_profile_id = Some (seq_profiles w + 1),
               r_request_type = ''outfit'',
               r_input_data = str_dict env
                 [(''gender'', PStr gender), (''age'', PStr age), (''size'', PStr size'),
                  (''style'', PStr dress_style), (''photo'', PBool has_photo)],
               r_ai_response = result, r_created_at = now env\<rparr>])) \<and>
   (db_fault env FashionProfiles = None \<longrightarrow>
      fashion_profiles (snd (save_fashion_profile env uid gender age size' culture_style
                                dress_style path w)) =
        fashion_profiles w @
          [\<lparr>p_id = seq_profiles w + 1, p_user_id = uid, p_gender = gender,
            p_age = integer_affinity env age, p_size = size', p_culture_style = culture_style,
            p_dress_style = dress_style, p_photo_path = path, p_created_at = now env\<rparr>])"
proof (intro conjI impI)
  assume "(user_id (session req) = None \<or> user_id (session req) = Some 0)"
  then have "\<not> truthy_id (user_id (session req))" by (auto simp: truthy_id_def)
  then show "fashion_profiles (snd (get_recommendation env req w)) = fashion_profiles w"
    by (rule anonymous_no_profile)
next
  assume a: "user_id (session req) = Some u \<and> 0 < u \<and> form req = Inr f \<and> profile_fields f gender age size' culture_style dress_style \<and>
    fst (photo_upload env req w) = Inr (photo_path, has_photo) \<and>
    db_fault env FashionProfiles = None"
  then have t: "truthy_id (user_id (session req))" by (simp add: truthy_id_def)
  from a have g: "form_get f ''gender'' ''Not specified'' = gender" "form_get f ''age'' ''25'' = age"
    "form_get f ''size'' ''M'' = size'" "form_get f ''culture_style'' ''Universal'' = culture_style"
    "form_get f ''dress_style'' ''Casual'' = dress_style"
    by (simp_all add: profile_fields_def form_get_field)
  from a have u: "user_id (session req) = Some u" by blast
  show "fashion_profiles (snd (get_recommendation env req w)) =
        fashion_profiles w @
          [\<lparr>p_id = seq_profiles w + 1, p_user_id = Some u, p_gender = gender,
            p_age = integer_affinity env age, p_size = size', p_culture_style = culture_style,
            p_dress_style = dress_style, p_photo_path = photo_path, p_created_at = now env\<rparr>]"
    using logged_in_one_profile [OF t, of f env w photo_path has_photo] a unfolding g u by simp
next
  assume c: "(user_id (session req) = None \<or> user_id (session req) = Some 0) \<and> form req = Inr f \<and> profile_fields f gender age size' culture_style dress_style \<and>
    fst (photo_upload env req w) = Inr (photo_path, has_photo) \<and>
    db_fault env AiRecommendations = None"
  then have t: "\<not> truthy_id (user_id (session req))" by (auto simp: truthy_id_def)
  from c have g: "form_get f ''gender'' ''Not specified'' = gender" "form_get f ''age'' ''25'' = age"
    "form_get f ''size'' ''M'' = size'" "form_get f ''dress_style'' ''Casual'' = dress_style"
    by (simp_all add: profile_fields_def form_get_field)
  from c have "photo_upload env req w = (Inr (photo_path, has_photo), snd (photo_upload env req w))"
    by (metis prod.collapse)
  moreover from c have "form req = Inr f" by blast
  ultimately have r: "photo_upload env req w = (Inr (photo_path, has_photo), snd (photo_upload env req w))"
    "form req = Inr f" by blast+
  from recommendation_stored [OF r(2) r(1), unfolded g] c t
  show "(\<exists>result.
         fst (get_recommendation env req w) =
           Inr \<lparr>status = 200,
                body = JObj [(''result'', JStr result), (''photo_analyzed'', JBool has_photo)]\<rparr> \<and>
         ai_recommendations (snd (get_recommendation env req w)) =
           ai_recommendations w @
             [\<lparr>r_id = seq_recs w + 1, r_user_id = user_id (session req), r_profile_id = None,
               r_request_type = ''outfit'',
               r_input_data = str_dict env
                 [(''gender'', PStr gender), (''age'', PStr age), (''size'', PStr size'),
                  (''style'', PStr dress_style), (''photo'', PBool has_photo)],
               r_ai_response = result, r_created_at = now env\<rparr>])"
    by simp
next
  assume d: "user_id (session req) = Some u \<and> 0 < u \<and> form req = Inr f \<and> profile_fields f gender age size' culture_style dress_style \<and>
    fst (photo_upload env req w) = Inr (photo_path, has_photo) \<and>
    db_fault env FashionProfiles = None \<and> db_fault env AiRecommendations = None"
  then have t: "truthy_id (user_id (session req))" by (simp add: truthy_id_def)
  from d have g: "form_get f ''gender'' ''Not specified'' = gender" "form_get f ''age'' ''25'' = age"
    "form_get f ''size'' ''M'' = size'" "form_get f ''dress_style'' ''Casual'' = dress_style"
    by (simp_all add: profile_fields_def form_get_field)
  from d have u: "user_id (session req) = Some u" by blast
  from d have "photo_upload env req w = (Inr (photo_path, has_photo), snd (photo_upload env req w))"
    by (metis prod.collapse)
  moreover from d have "form req = Inr f" by blast
  ultimately have r: "photo_upload env req w = (Inr (photo_path, has_photo), snd (photo_upload env req w))"
    "form req = Inr f" by blast+
  from recommendation_stored [OF r(2) r(1), unfolded g u] d t
  show "(\<exists>result.
         fst (get_recommendation env req w) =
           Inr \<lparr>status = 200,
                body = JObj [(''result'', JStr result), (''photo_analyzed'', JBool has_photo)]\<rparr> \<and>
         ai_recommendations (snd (get_recommendation env req w)) =
           ai_recommendations w @
             [\<lparr>r_id = seq_recs w + 1, r_user_id = Some u, r_profile_id = Some (seq_profiles w + 1),
               r_request_type = ''outfit'',
               r_input_data = str_dict env
                 [(''gender'', PStr gender), (''age'', PStr age), (''size'', PStr size'),
                  (''style'', PStr dress_style), (''photo'', PBool has_photo)],
               r_ai_response = result, r_created_at = now env\<rparr>])"
    by simp
next
  assume "db_fault env FashionProfiles = None"
  then show "fashion_profiles (snd (save_fashion_profile env uid gender age size' culture_style
                                dress_style path w)) =
        fashion_profiles w @
          [\<lparr>p_id = seq_profiles w + 1, p_user_id = uid, p_gender = gender,
            p_age = integer_affinity env age, p_size = size', p_culture_style = culture_style,
            p_dress_style = dress_style, p_photo_path = path, p_created_at = now env\<rparr>]"
    by (simp add: save_fashion_profile_def insert_profile_def)
qed

theorem profile_rows_witness:
  "user_id (session req_anon_profile) = None \<and>
   form req_anon_profile = Inr profile_form \<and>
   profile_fields profile_form ''Female'' ''028'' ''M'' ''Western'' ''Formal'' \<and>
   fst (photo_upload env0 req_anon_profile w0) = Inr ([], False) \<and>
   db_fault env0 AiRecommendations = None \<and>
   fashion_profiles (snd (get_recommendation env0 req_anon_profile w0)) = [] \<and>
   ai_recommendations (snd (get_recommendation env0 req_anon_profile w0)) =
     [\<lparr>r_id = 1, r_user_id = None, r_profile_id = None, r_request_type = ''outfit'',
       r_input_data = ''genderagesizestylephoto'', r_ai_response = ''ok'', r_created_at = 100\<rparr>] \<and>
   user_id (session req_user_profile) = Some 1 \<and> form req_user_profile = Inr profile_form \<and>
   fst (photo_upload env0 req_user_profile w0) = Inr ([], False) \<and>
   db_fault env0 FashionProfiles = None \<and>
   fashion_profiles (snd (get_recommendation env0 req_user_profile w0)) =
     [\<lparr>p_id = 1, p_user_id = Some 1, p_gender = ''Female'', p_age = SqlInteger 28,
       p_size = ''M'', p_culture_style = ''Western'', p_dress_style = ''Formal'',
       p_photo_path = [], p_created_at = 100\<rparr>] \<and>
   ai_recommendations (snd (get_recommendation env0 req_user_profile w0)) =
     [\<lparr>r_id = 1, r_user_id = Some 1, r_profile_id = Some 1, r_request_type = ''outfit'',
       r_input_data = ''genderagesizestylephoto'', r_ai_response = ''ok'', r_created_at = 100\<rparr>] \<and>
   fashion_profiles (snd (save_fashion_profile env0 None ''Female'' ''028'' ''M'' ''Western''
                             ''Formal'' [] w0)) =
     [\<lparr>p_id = 1, p_user_id = None, p_gender = ''Female'', p_age = SqlInteger 28,
       p_size = ''M'', p_culture_style = ''Western'', p_dress_style = ''Formal'',
       p_photo_path = [], p_created_at = 100\<rparr>]"
proof -
  have 3: "form req_anon_profile = Inr profile_form" "form req_user_profile = Inr profile_form"
    by (simp_all add: req_anon_profile_def req_user_profile_def)
  have 4: "fst (photo_upload env0 req_anon_profile w0) = Inr ([], False)"
    "fst (photo_upload env0 req_user_profile w0) = Inr ([], False)"
    by (simp_all add: photo_upload_def req_anon_profile_def req_user_profile_def req0_def)
  have 5: "db_fault env0 FashionProfiles = None" "db_fault env0 AiRecommendations = None"
    by (simp_all add: env0_def)
  have 6: "user_id (session req_user_profile) = Some 1" "user_id (session req_anon_profile) = None"
    by (simp_all add: req_user_profile_def req_anon_profile_def req0_def anonymous_def user1_def)
  have 7: "profile_fields profile_form ''Female'' ''028'' ''M'' ''Western'' ''Formal''"
    by (simp add: profile_fields_def field_is_def profile_form_def)
  have i: "integer_affinity env0 ''028'' = SqlInteger 28" by code_simp
  have 8: "now env0 = 100"
    "str_dict env0 [(''gender'', PStr ''Female''), (''age'', PStr ''028''), (''size'', PStr ''M''),
                    (''style'', PStr ''Formal''), (''photo'', PBool False)] = ''genderagesizestylephoto''"
    by (simp_all add: env0_def)
  have 9: "fashion_profiles w0 = []" "ai_recommendations w0 = []" "seq_profiles w0 = 0" "seq_recs w0 = 0"
    by (simp_all add: w0_def)
  note a = profile_rows [where req = req_anon_profile and env = env0 and w = w0
      and f = profile_form and photo_path = "[]" and has_photo = False
      and gender = "''Female''" and age = "''028''" and size' = "''M''"
      and culture_style = "''Western''" and dress_style = "''Formal''",
      unfolded 6 8 9 i resp_anon]
  note b = profile_rows [where req = req_user_profile and env = env0 and w = w0
      and f = profile_form and photo_path = "[]" and has_photo = False and u = 1
      and uid = None and gender = "''Female''" and age = "''028''" and size' = "''M''"
      and culture_style = "''Western''" and dress_style = "''Formal''" and path = "[]",
      unfolded 6 8 9 i resp_user]
  show ?thesis using 3 4 5 7 a b unfolding 6 by auto
qed

text \<open>
  C6. When the product field of a pitch or campaign request is missing, empty or made of
  whitespace only, the handler answers with its prompt-for-input message and returns the
  state as it was: no request is sent to the completion service and no recommendation is
  stored.
\<close>

theorem empty_product_short_circuit:
  "form req = Inr f \<Longrightarrow> field_is f ''product'' [] v \<Longrightarrow> strip v = [] \<Longrightarrow>
     generate_pitch env req w =
       (Inr \<lparr>status = 200,
             body = JObj [(''result'', JStr ''Please enter an outfit or collection description.'')]\<rparr>, w) \<and>
     generate_campaign env req w =
       (Inr \<lparr>status = 200,
             body = JObj [(''result'', JStr ''Please enter a product or collection name.'')]\<rparr>, w)"
  by (simp add: generate_pitch_def generate_campaign_def jsonify_def form_get_field)

theorem empty_product_short_circuit_witness:
  "form req_blank_product = Inr [''product'' \<mapsto> nbsp_blank] \<and>
   field_is [''product'' \<mapsto> nbsp_blank] ''product'' [] nbsp_blank \<and> strip nbsp_blank = [] \<and>
   generate_pitch env0 req_blank_product w0 =
     (Inr \<lparr>status = 200,
           body = JObj [(''result'', JStr ''Please enter an outfit or collection description.'')]\<rparr>, w0) \<and>
   generate_campaign env0 req_blank_product w0 =
     (Inr \<lparr>status = 200,
           body = JObj [(''result'', JStr ''Please enter a product or collection name.'')]\<rparr>, w0) \<and>
   form req0 = Inr Map.empty \<and> field_is Map.empty ''product'' [] [] \<and> strip [] = [] \<and>
   generate_pitch env0 req0 w0 =
     (Inr \<lparr>status = 200,
           body = JObj [(''result'', JStr ''Please enter an outfit or collection description.'')]\<rparr>, w0) \<and>
   generate_campaign env0 req0 w0 =
     (Inr \<lparr>status = 200,
           body = JObj [(''result'', JStr ''Please enter a product or collection name.'')]\<rparr>, w0)"
proof -
  have f: "form req_blank_product = Inr [''product'' \<mapsto> nbsp_blank]"
    by (simp add: req_blank_product_def)
  have v: "field_is [''product'' \<mapsto> nbsp_blank] ''product'' [] nbsp_blank"
    by (simp add: field_is_def)
  have s: "strip nbsp_blank = []" by code_simp
  have f0: "form req0 = Inr Map.empty" by (simp add: req0_def)
  have v0: "field_is Map.empty ''product'' [] []" by (simp add: field_is_def)
  have s0: "strip [] = []" by (rule strip_Nil)
  show ?thesis
    using f v s f0 v0 s0 empty_product_short_circuit [OF f v s, of env0 w0]
      empty_product_short_circuit [OF f0 v0 s0, of env0 w0]
    by simp
qed

section \<open>Properties of the history endpoint\<close>

lemma select_history_sorted:
  "sorted_wrt (\<lambda>a b. r_created_at b \<le> r_created_at a) (select_history w uid n)"
proof -
  let ?k = "\<lambda>r. - int (r_created_at r)"
  let ?xs = "sort_key ?k (filter (\<lambda>r. uid \<noteq> None \<and> r_user_id r = uid) (ai_recommendations w))"
  have "sorted (map ?k ?xs)" by (rule sorted_sort_key)
  then have "sorted_wrt (\<lambda>a b. ?k a \<le> ?k b) ?xs" by (simp add: sorted_map)
  then have "sorted_wrt (\<lambda>a b. r_created_at b \<le> r_created_at a) ?xs" by simp
  then show ?thesis unfolding select_history_def by (rule sorted_wrt_take)
qed

lemma select_history_length:
  "length (select_history w uid n) =
     min n (length (filter (\<lambda>r. uid \<noteq> None \<and> r_user_id r = uid) (ai_recommendations w)))"
  by (simp add: select_history_def min.commute)

lemma select_history_rest:
  assumes "uid \<noteq> None"
  shows "\<exists>rest.
     mset (select_history w uid n) + mset rest =
       mset (filter (\<lambda>r. r_user_id r = uid) (ai_recommendations w)) \<and>
     (\<forall>r \<in> set (select_history w uid n). \<forall>r' \<in> set rest. r_created_at r' \<le> r_created_at r)"
proof -
  let ?k = "\<lambda>r. - int (r_created_at r)"
  let ?xs = "sort_key ?k (filter (\<lambda>r. uid \<noteq> None \<and> r_user_id r = uid) (ai_recommendations w))"
  let ?P = "\<lambda>a b. r_created_at b \<le> r_created_at a"
  have "sorted_wrt ?P ?xs"
    using select_history_sorted [of w uid "length ?xs"] by (simp add: select_history_def)
  then have "sorted_wrt ?P (take n ?xs @ drop n ?xs)" by (simp only: append_take_drop_id)
  then have s: "\<forall>x \<in> set (take n ?xs). \<forall>y \<in> set (drop n ?xs). ?P x y"
    using sorted_wrt_append [of ?P "take n ?xs" "drop n ?xs"] by blast
  have "mset (take n ?xs) + mset (drop n ?xs) = mset (take n ?xs @ drop n ?xs)"
    by (simp only: mset_append)
  also have "\<dots> = mset ?xs" by (simp only: append_take_drop_id)
  also have "\<dots> = mset (filter (\<lambda>r. r_user_id r = uid) (ai_recommendations w))"
    using assms by simp
  finally have m: "mset (take n ?xs) + mset (drop n ?xs) =
      mset (filter (\<lambda>r. r_user_id r = uid) (ai_recommendations w))" .
  have "select_history w uid n = take n ?xs" by (simp add: select_history_def)
  with m s show ?thesis by metis
qed

text \<open>
  C7. Without a user id in the session the history endpoint answers 401. With one, and
  the database answering, it answers 200 with the five columns of rows of
  \<open>ai_recommendations\<close>: the rows returned and the rows left out are together exactly the
  rows of that user, the rows returned are 20 (all of the user's rows if there are fewer)
  and are ordered by \<open>created_at\<close> from the newest on, and no row left out is newer than a
  row returned. They are the rows \<open>get_recommendations_by_user\<close> of database.py returns for
  that user with its default limit.
\<close>

theorem history_endpoint:
  "(user_id (session req) = None \<or> user_id (session req) = Some 0 \<longrightarrow>
      api_history env req w =
        Inr \<lparr>status = 401,
             body = JObj [(''success'', JBool False), (''message'', JStr ''Not logged in'')]\<rparr>) \<and>
   (user_id (session req) = Some u \<and> 0 < u \<and> db_fault env AiRecommendations = None \<longrightarrow>
      (\<exists>rows rest.
         api_history env req w =
           Inr \<lparr>status = 200,
                body = JObj [(''success'', JBool True),
                             (''history'',
                              JArr (map (\<lambda>r. JObj [(''id'', JNum (int (r_id r))),
                                     (''request_type'', JStr (r_request_type r)),
                                     (''input_data'', JStr (r_input_data r)),
                                     (''ai_response'', JStr (r_ai_response r)),
                                     (''created_at'', JNum (int (r_created_at r)))])
                                      rows))]\<rparr> \<and>
         get_recommendations_by_user env (Some u) 20 w = Inr rows \<and>
         mset rows + mset rest =
           mset (filter (\<lambda>r. r_user_id r = (Some u)) (ai_recommendations w)) \<and>
         length rows = min 20 (length (filter (\<lambda>r. r_user_id r = Some u) (ai_recommendations w))) \<and>
         sorted_wrt (\<lambda>a b. r_created_at b \<le> r_created_at a) rows \<and>
         (\<forall>r \<in> set rows. \<forall>r' \<in> set rest. r_created_at r' \<le> r_created_at r)))"
proof (intro conjI impI)
  assume "user_id (session req) = None \<or> user_id (session req) = Some 0"
  then have "\<not> truthy_id (user_id (session req))" by (auto simp: truthy_id_def)
  then show "api_history env req w =
        Inr \<lparr>status = 401,
             body = JObj [(''success'', JBool False), (''message'', JStr ''Not logged in'')]\<rparr>"
    by (simp add: api_history_def NOT_LOGGED_IN_def)
next
  let ?rows = "select_history w (Some u) 20"
  assume a: "user_id (session req) = Some u \<and> 0 < u \<and> db_fault env AiRecommendations = None"
  then have t: "truthy_id (user_id (session req))" by (simp add: truthy_id_def)
  have 1: "api_history env req w =
           Inr \<lparr>status = 200,
                body = JObj [(''success'', JBool True),
                             (''history'',
                              JArr (map (\<lambda>r. JObj [(''id'', JNum (int (r_id r))),
                                     (''request_type'', JStr (r_request_type r)),
                                     (''input_data'', JStr (r_input_data r)),
                                     (''ai_response'', JStr (r_ai_response r)),
                                     (''created_at'', JNum (int (r_created_at r)))])
                                      ?rows))]\<rparr>"
    using a t by (simp add: api_history_def jsonify_def history_json_def)
  have 2: "length ?rows = min 20 (length (filter (\<lambda>r. r_user_id r = Some u) (ai_recommendations w)))"
    by (simp add: select_history_length)
  have 4: "sorted_wrt (\<lambda>a b. r_created_at b \<le> r_created_at a) ?rows"
    by (rule select_history_sorted)
  from select_history_rest [of "Some u" w 20] obtain rest where
    5: "mset ?rows + mset rest = mset (filter (\<lambda>r. r_user_id r = Some u) (ai_recommendations w))"
    and 6: "\<forall>r \<in> set ?rows. \<forall>r' \<in> set rest. r_created_at r' \<le> r_created_at r"
    by blast
  have 7: "get_recommendations_by_user env (Some u) 20 w = Inr ?rows"
    using a by (simp add: get_recommendations_by_user_def)
  from 1 2 4 5 6 7 show "(\<exists>rows rest.
         api_history env req w =
           Inr \<lparr>status = 200,
                body = JObj [(''success'', JBool True),
                             (''history'',
                              JArr (map (\<lambda>r. JObj [(''id'', JNum (int (r_id r))),
                                     (''request_type'', JStr (r_request_type r)),
                                     (''input_data'', JStr (r_input_data r)),
                                     (''ai_response'', JStr (r_ai_response r)),
                                     (''created_at'', JNum (int (r_created_at r)))])
                                      rows))]\<rparr> \<and>
         get_recommendations_by_user env (Some u) 20 w = Inr rows \<and>
         mset rows + mset rest =
           mset (filter (\<lambda>r. r_user_id r = (Some u)) (ai_recommendations w)) \<and>
         length rows = min 20 (length (filter (\<lambda>r. r_user_id r = Some u) (ai_recommendations w))) \<and>
         sorted_wrt (\<lambda>a b. r_created_at b \<le> r_created_at a) rows \<and>
         (\<forall>r \<in> set rows. \<forall>r' \<in> set rest. r_created_at r' \<le> r_created_at r))"
    by blast
qed

theorem history_endpoint_witness:
  "user_id (session req0) = None \<and>
   api_history env0 req0 w_many =
     Inr \<lparr>status = 401,
             body = JObj [(''success'', JBool False), (''message'', JStr ''Not logged in'')]\<rparr> \<and>
   user_id (session (req0\<lparr>session := user1\<rparr>)) = Some 1 \<and> (0::nat) < 1 \<and>
   db_fault env0 AiRecommendations = None \<and>
   (\<exists>rows rest.
         api_history env0 (req0\<lparr>session := user1\<rparr>) w_many =
           Inr \<lparr>status = 200,
                body = JObj [(''success'', JBool True),
                             (''history'',
                              JArr (map (\<lambda>r. JObj [(''id'', JNum (int (r_id r))),
                                     (''request_type'', JStr (r_request_type r)),
                                     (''input_data'', JStr (r_input_data r)),
                                     (''ai_response'', JStr (r_ai_response r)),
                                     (''created_at'', JNum (int (r_created_at r)))])
                                      rows))]\<rparr> \<and>
         get_recommendations_by_user env0 (Some 1) 20 w_many = Inr rows \<and>
         mset rows + mset rest =
           mset (filter (\<lambda>r. r_user_id r = (Some 1)) (ai_recommendations w_many)) \<and>
         length rows = 20 \<and>
         sorted_wrt (\<lambda>a b. r_created_at b \<le> r_created_at a) rows \<and>
         (\<forall>r \<in> set rows. \<forall>r' \<in> set rest. r_created_at r' \<le> r_created_at r))"
proof -
  have 1: "user_id (session req0) = None"
    by (simp add: req0_def anonymous_def)
  have 2: "user_id (session (req0\<lparr>session := user1\<rparr>)) = Some 1" by (simp add: user1_def)
  have 3: "db_fault env0 AiRecommendations = None" by (simp add: env0_def)
  have 5: "min 20 (length (filter (\<lambda>r. r_user_id r = Some 1) (ai_recommendations w_many))) = 20"
    by code_simp
  note a = history_endpoint [where req = req0 and env = env0 and w = w_many]
  note b = history_endpoint [where req = "req0\<lparr>session := user1\<rparr>" and env = env0
      and w = w_many and u = 1, unfolded 5]
  show ?thesis using 1 2 3 a b by simp
qed

section \<open>Properties of signup\<close>

lemma insert_user_ok:
  assumes "db_fault env Users = None"
    and "phone = None \<or> phone \<notin> set (map u_phone (users w))"
    and "email = None \<or> email \<notin> set (map u_email (users w))"
  shows "insert_user env name phone email h w =
     (Inr (seq_users w + 1),
      w\<lparr>users := users w @
           [\<lparr>u_id = seq_users w + 1, u_name = name, u_phone = phone, u_email = email,
             u_password = h, u_created_at = now env\<rparr>],
        seq_users := seq_users w + 1\<rparr>)"
  using assms by (simp add: insert_user_def unique_ok_def)

lemma signup_ok:
  assumes "json_body req = JObj kvs"
    and "get_strip (JObj kvs) ''name'' = Inr name"
    and "get_strip (JObj kvs) ''phone'' = Inr phone"
    and "get_strip (JObj kvs) ''email'' = Inr email"
    and "map_of kvs ''password'' = Some (JStr pw)" and "pw \<noteq> []"
    and "phone \<noteq> [] \<or> email \<noteq> []"
    and "phone \<noteq> [] \<longrightarrow> Some phone \<notin> set (map u_phone (users w))"
    and "email \<noteq> [] \<longrightarrow> Some email \<notin> set (map u_email (users w))"
    and "db_fault env Users = None"
  shows "signup env req w =
     (Inr (jsonify (JObj [(''success'', JBool True), (''name'', JStr name)]),
           \<lparr>user_id = Some (seq_users w + 1), user_name = Some name\<rparr>),
      w\<lparr>users := users w @
           [\<lparr>u_id = seq_users w + 1, u_name = name,
             u_phone = (if phone = [] then None else Some phone),
             u_email = (if email = [] then None else Some email),
             u_password = sha256_hex env pw, u_created_at = now env\<rparr>],
        seq_users := seq_users w + 1\<rparr>)"
proof -
  have ne: "kvs \<noteq> []" using assms(5) by auto
  then have d: "(if falsy (json_body req) then JObj [] else json_body req) = JObj kvs"
    using assms(1) by (simp add: falsy_def)
  have pw: "dict_get (JObj kvs) ''password'' (JStr []) = Inr (JStr pw)"
    using assms(5) by (simp add: dict_get_def)
  have f: "\<not> falsy (JStr pw)" using assms(6) by (simp add: falsy_def)
  have h: "hashpw env (JStr pw) = Inr (sha256_hex env pw)" by (simp add: hashpw_def)
  have i: "insert_user env name (or_none (Some phone)) (or_none (Some email)) (sha256_hex env pw) w =
     (Inr (seq_users w + 1),
      w\<lparr>users := users w @
           [\<lparr>u_id = seq_users w + 1, u_name = name, u_phone = or_none (Some phone),
             u_email = or_none (Some email),
             u_password = sha256_hex env pw, u_created_at = now env\<rparr>],
        seq_users := seq_users w + 1\<rparr>)"
    using assms(8,9,10) by (intro insert_user_ok) (auto simp: or_none_def)
  have c: "\<not> (phone = [] \<and> email = [])" using assms(7) by blast
  show ?thesis
    using assms(2,3,4,10) c pw f h i
    by (auto simp add: signup_def d or_none_def)
qed

lemma signup_phone_only:
  assumes "strip p \<noteq> []" "Some (strip p) \<notin> set (map u_phone (users w))" "pw \<noteq> []"
    "db_fault env Users = None"
  shows "signup env (signup_request (PhoneOnly p) pw) w =
     (Inr (jsonify (JObj [(''success'', JBool True), (''name'', JStr [])]),
           \<lparr>user_id = Some (seq_users w + 1), user_name = Some []\<rparr>),
      w\<lparr>users := users w @
           [\<lparr>u_id = seq_users w + 1, u_name = [], u_phone = Some (strip p), u_email = None,
             u_password = sha256_hex env pw, u_created_at = now env\<rparr>],
        seq_users := seq_users w + 1\<rparr>)"
  using signup_ok [where req = "signup_request (PhoneOnly p) pw"
      and kvs = "[(''phone'', JStr p), (''password'', JStr pw)]" and name = "[]"
      and phone = "strip p" and email = "[]" and pw = pw and w = w and env = env] assms
  by (simp add: signup_request_def get_strip_def dict_get_def strip_Nil)

lemma signup_email_only:
  assumes "strip e \<noteq> []" "Some (strip e) \<notin> set (map u_email (users w))" "pw \<noteq> []"
    "db_fault env Users = None"
  shows "signup env (signup_request (EmailOnly e) pw) w =
     (Inr (jsonify (JObj [(''success'', JBool True), (''name'', JStr [])]),
           \<lparr>user_id = Some (seq_users w + 1), user_name = Some []\<rparr>),
      w\<lparr>users := users w @
           [\<lparr>u_id = seq_users w + 1, u_name = [], u_phone = None, u_email = Some (strip e),
             u_password = sha256_hex env pw, u_created_at = now env\<rparr>],
        seq_users := seq_users w + 1\<rparr>)"
  using signup_ok [where req = "signup_request (EmailOnly e) pw"
      and kvs = "[(''email'', JStr e), (''password'', JStr pw)]" and name = "[]"
      and phone = "[]" and email = "strip e" and pw = pw and w = w and env = env] assms
  by (simp add: signup_request_def get_strip_def dict_get_def strip_Nil)

lemma signup_each_fresh:
  assumes "pw \<noteq> []" "db_fault env Users = None"
  shows "fresh cs w \<Longrightarrow>
     list_all registered (fst (signup_each env (map (\<lambda>c. signup_request c pw) cs) w)) \<and>
     map u_phone (users (snd (signup_each env (map (\<lambda>c. signup_request c pw) cs) w))) =
       map u_phone (users w) @
         map (\<lambda>c. case c of PhoneOnly p \<Rightarrow> Some (strip p) | EmailOnly e \<Rightarrow> None) cs \<and>
     map u_email (users (snd (signup_each env (map (\<lambda>c. signup_request c pw) cs) w))) =
       map u_email (users w) @
         map (\<lambda>c. case c of PhoneOnly p \<Rightarrow> None | EmailOnly e \<Rightarrow> Some (strip e)) cs"
proof (induction cs arbitrary: w)
  case Nil
  then show ?case by simp
next
  case (Cons c cs)
  show ?case
  proof (cases c)
    case (PhoneOnly p)
    let ?w1 = "w\<lparr>users := users w @
           [\<lparr>u_id = seq_users w + 1, u_name = [], u_phone = Some (strip p), u_email = None,
             u_password = sha256_hex env pw, u_created_at = now env\<rparr>],
        seq_users := seq_users w + 1\<rparr>"
    from Cons.prems PhoneOnly have p: "strip p \<noteq> []" "Some (strip p) \<notin> set (map u_phone (users w))"
      by (auto simp: fresh_def)
    note s = signup_phone_only [OF p assms]
    from Cons.prems PhoneOnly have "fresh cs ?w1" by (auto simp: fresh_def)
    from Cons.IH [OF this] s PhoneOnly show ?thesis
      by (simp add: registered_def jsonify_def case_prod_beta)
  next
    case (EmailOnly e)
    let ?w1 = "w\<lparr>users := users w @
           [\<lparr>u_id = seq_users w + 1, u_name = [], u_phone = None, u_email = Some (strip e),
             u_password = sha256_hex env pw, u_created_at = now env\<rparr>],
        seq_users := seq_users w + 1\<rparr>"
    from Cons.prems EmailOnly have p: "strip e \<noteq> []" "Some (strip e) \<notin> set (map u_email (users w))"
      by (auto simp: fresh_def)
    note s = signup_email_only [OF p assms]
    from Cons.prems EmailOnly have "fresh cs ?w1" by (auto simp: fresh_def)
    from Cons.IH [OF this] s EmailOnly show ?thesis
      by (simp add: registered_def jsonify_def case_prod_beta)
  qed
qed

lemma signup_conflict:
  assumes "json_body req = JObj kvs"
    and "get_strip (JObj kvs) ''name'' = Inr name"
    and "get_strip (JObj kvs) ''phone'' = Inr phone"
    and "get_strip (JObj kvs) ''email'' = Inr email"
    and "map_of kvs ''password'' = Some (JStr pw)" and "pw \<noteq> []"
    and "(phone \<noteq> [] \<and> Some phone \<in> set (map u_phone (users w))) \<or>
         (email \<noteq> [] \<and> Some email \<in> set (map u_email (users w)))"
    and "db_fault env Users = None"
  shows "signup env req w =
     (Inr (bad_request ''Phone/email already registered'', session req), w)"
proof -
  have ne: "kvs \<noteq> []" using assms(5) by auto
  then have d: "(if falsy (json_body req) then JObj [] else json_body req) = JObj kvs"
    using assms(1) by (simp add: falsy_def)
  have pw: "dict_get (JObj kvs) ''password'' (JStr []) = Inr (JStr pw)"
    using assms(5) by (simp add: dict_get_def)
  have f: "\<not> falsy (JStr pw)" using assms(6) by (simp add: falsy_def)
  have h: "hashpw env (JStr pw) = Inr (sha256_hex env pw)" by (simp add: hashpw_def)
  have c: "\<not> (phone = [] \<and> email = [])" using assms(7) by blast
  have "\<exists>m. insert_user env name (or_none (Some phone)) (or_none (Some email)) (sha256_hex env pw) w
          = (Inl (IntegrityError m), w)"
    using assms(7,8) by (auto simp: insert_user_def unique_ok_def or_none_def)
  then obtain m where i: "insert_user env name (or_none (Some phone)) (or_none (Some email))
       (sha256_hex env pw) w = (Inl (IntegrityError m), w)" ..
  show ?thesis
    using assms(2,3,4,8) c pw f h i
    by (auto simp add: signup_def d)
qed

lemma create_user_ok:
  assumes "db_fault env Users = None"
    and "or_none phone = None \<or> or_none phone \<notin> set (map u_phone (users w))"
    and "or_none email = None \<or> or_none email \<notin> set (map u_email (users w))"
  shows "create_user env name phone email password w =
     (Inr (True, Inl (seq_users w + 1)),
      w\<lparr>users := users w @
           [\<lparr>u_id = seq_users w + 1, u_name = name, u_phone = or_none phone,
             u_email = or_none email, u_password = sha256_hex env password,
             u_created_at = now env\<rparr>],
        seq_users := seq_users w + 1\<rparr>)"
  using insert_user_ok [OF assms] by (simp add: create_user_def)

lemma get_strip_text: "has_text kvs k v \<Longrightarrow> get_strip (JObj kvs) k = Inr (strip v)"
  by (auto simp: has_text_def get_strip_def dict_get_def strip_Nil)

lemma signup_both_blank:
  assumes "json_body req = JObj kvs"
    and "get_strip (JObj kvs) ''name'' = Inr name"
    and "get_strip (JObj kvs) ''phone'' = Inr []"
    and "get_strip (JObj kvs) ''email'' = Inr []"
  shows "signup env req w = (Inr (bad_request ''Phone or email required'', session req), w)"
proof -
  have d: "dict_get (if falsy (json_body req) then JObj [] else json_body req) = dict_get (JObj kvs)"
    "get_strip (if falsy (json_body req) then JObj [] else json_body req) = get_strip (JObj kvs)"
    using assms(1) by (auto simp: falsy_def fun_eq_iff get_strip_def dict_get_def)
  show ?thesis
    using assms(2,3,4)
    by (simp add: signup_def Let_def d dict_get_def split: option.splits)
qed

text \<open>
  C10. A signup whose phone or email is missing, empty or blank stores \<open>None\<close> in that
  column, and it succeeds whenever its non-blank contacts are not registered yet, however
  many rows hold no phone or no email. So any list of users who each give only a phone or
  only an email, no contact twice, are all registered, each with \<open>None\<close> in the other
  column. \<open>create_user\<close> of database.py stores an absent or empty contact as \<open>None\<close> too.
  A signup with a non-blank phone or email that is registered already is refused, and so
  is a signup whose phone and email are both blank.
\<close>

theorem signup_null_contacts:
  "(json_body req = JObj kvs \<and> has_text kvs ''name'' n \<and> has_text kvs ''phone'' p \<and>
    has_text kvs ''email'' e \<and> map_of kvs ''password'' = Some (JStr pw) \<and> pw \<noteq> [] \<and>
    (strip p \<noteq> [] \<or> strip e \<noteq> []) \<and>
    (strip p \<noteq> [] \<longrightarrow> Some (strip p) \<notin> set (map u_phone (users w))) \<and>
    (strip e \<noteq> [] \<longrightarrow> Some (strip e) \<notin> set (map u_email (users w))) \<and>
    db_fault env Users = None \<longrightarrow>
      signup env req w =
        (Inr (\<lparr>status = 200,
               body = JObj [(''success'', JBool True), (''name'', JStr (strip n))]\<rparr>,
              \<lparr>user_id = Some (seq_users w + 1), user_name = Some (strip n)\<rparr>),
         w\<lparr>users := users w @
              [\<lparr>u_id = seq_users w + 1, u_name = strip n,
                u_phone = (if strip p = [] then None else Some (strip p)),
                u_email = (if strip e = [] then None else Some (strip e)),
                u_password = sha256_hex env pw, u_created_at = now env\<rparr>],
           seq_users := seq_users w + 1\<rparr>)) \<and>
   (pw \<noteq> [] \<and> db_fault env Users = None \<and> fresh cs w \<longrightarrow>
      list_all registered (fst (signup_each env (map (\<lambda>c. signup_request c pw) cs) w)) \<and>
      map u_phone (users (snd (signup_each env (map (\<lambda>c. signup_request c pw) cs) w))) =
        map u_phone (users w) @
          map (\<lambda>c. case c of PhoneOnly p \<Rightarrow> Some (strip p) | EmailOnly e \<Rightarrow> None) cs \<and>
      map u_email (users (snd (signup_each env (map (\<lambda>c. signup_request c pw) cs) w))) =
        map u_email (users w) @
          map (\<lambda>c. case c of PhoneOnly p \<Rightarrow> None | EmailOnly e \<Rightarrow> Some (strip e)) cs) \<and>
   (db_fault env Users = None \<and>
    (phone' = None \<or> phone' = Some [] \<or> phone' \<notin> set (map u_phone (users w))) \<and>
    (email' = None \<or> email' = Some [] \<or> email' \<notin> set (map u_email (users w))) \<longrightarrow>
      create_user env name' phone' email' password w =
        (Inr (True, Inl (seq_users w + 1)),
         w\<lparr>users := users w @
              [\<lparr>u_id = seq_users w + 1, u_name = name',
                u_phone = (if phone' = Some [] then None else phone'),
                u_email = (if email' = Some [] then None else email'),
                u_password = sha256_hex env password, u_created_at = now env\<rparr>],
           seq_users := seq_users w + 1\<rparr>)) \<and>
   (json_body reqc = JObj kvsc \<and> has_text kvsc ''name'' nc \<and> has_text kvsc ''phone'' pc \<and>
    has_text kvsc ''email'' ec \<and> map_of kvsc ''password'' = Some (JStr pwc) \<and> pwc \<noteq> [] \<and>
    ((strip pc \<noteq> [] \<and> Some (strip pc) \<in> set (map u_phone (users w))) \<or>
     (strip ec \<noteq> [] \<and> Some (strip ec) \<in> set (map u_email (users w)))) \<and>
    db_fault env Users = None \<longrightarrow>
      signup env reqc w =
        (Inr (\<lparr>status = 400,
               body = JObj [(''success'', JBool False),
                            (''message'', JStr ''Phone/email already registered'')]\<rparr>,
              session reqc), w)) \<and>
   (json_body reqb = JObj kvsb \<and> has_text kvsb ''name'' nb \<and> has_text kvsb ''phone'' pb \<and>
    has_text kvsb ''email'' eb \<and> strip pb = [] \<and> strip eb = [] \<longrightarrow>
      signup env reqb w =
        (Inr (\<lparr>status = 400,
               body = JObj [(''success'', JBool False), (''message'', JStr ''Phone or email required'')]\<rparr>,
              session reqb), w))"
proof (intro conjI impI)
  assume a: "json_body req = JObj kvs \<and> has_text kvs ''name'' n \<and> has_text kvs ''phone'' p \<and>
    has_text kvs ''email'' e \<and> map_of kvs ''password'' = Some (JStr pw) \<and> pw \<noteq> [] \<and>
    (strip p \<noteq> [] \<or> strip e \<noteq> []) \<and>
    (strip p \<noteq> [] \<longrightarrow> Some (strip p) \<notin> set (map u_phone (users w))) \<and>
    (strip e \<noteq> [] \<longrightarrow> Some (strip e) \<notin> set (map u_email (users w))) \<and>
    db_fault env Users = None"
  have "signup env req w =
        (Inr (jsonify (JObj [(''success'', JBool True), (''name'', JStr (strip n))]),
              \<lparr>user_id = Some (seq_users w + 1), user_name = Some (strip n)\<rparr>),
         w\<lparr>users := users w @
              [\<lparr>u_id = seq_users w + 1, u_name = strip n,
                u_phone = (if strip p = [] then None else Some (strip p)),
                u_email = (if strip e = [] then None else Some (strip e)),
                u_password = sha256_hex env pw, u_created_at = now env\<rparr>],
           seq_users := seq_users w + 1\<rparr>)"
    by (rule signup_ok [where kvs = kvs]) (use a get_strip_text in blast)+
  then show "signup env req w =
        (Inr (\<lparr>status = 200,
               body = JObj [(''success'', JBool True), (''name'', JStr (strip n))]\<rparr>,
              \<lparr>user_id = Some (seq_users w + 1), user_name = Some (strip n)\<rparr>),
         w\<lparr>users := users w @
              [\<lparr>u_id = seq_users w + 1, u_name = strip n,
                u_phone = (if strip p = [] then None else Some (strip p)),
                u_email = (if strip e = [] then None else Some (strip e)),
                u_password = sha256_hex env pw, u_created_at = now env\<rparr>],
           seq_users := seq_users w + 1\<rparr>)"
    by (simp add: jsonify_def)
next
  assume b: "pw \<noteq> [] \<and> db_fault env Users = None \<and> fresh cs w"
  then have 1: "pw \<noteq> []" and 2: "db_fault env Users = None" and 3: "fresh cs w" by blast+
  note r = signup_each_fresh [OF 1 2 3]
  show "list_all registered (fst (signup_each env (map (\<lambda>c. signup_request c pw) cs) w))"
    using r by blast
  show "map u_phone (users (snd (signup_each env (map (\<lambda>c. signup_request c pw) cs) w))) =
        map u_phone (users w) @
          map (\<lambda>c. case c of PhoneOnly p \<Rightarrow> Some (strip p) | EmailOnly e \<Rightarrow> None) cs"
    using r by blast
  show "map u_email (users (snd (signup_each env (map (\<lambda>c. signup_request c pw) cs) w))) =
        map u_email (users w) @
          map (\<lambda>c. case c of PhoneOnly p \<Rightarrow> None | EmailOnly e \<Rightarrow> Some (strip e)) cs"
    using r by blast
next
  assume c: "db_fault env Users = None \<and>
    (phone' = None \<or> phone' = Some [] \<or> phone' \<notin> set (map u_phone (users w))) \<and>
    (email' = None \<or> email' = Some [] \<or> email' \<notin> set (map u_email (users w)))"
  have o: "or_none phone' = (if phone' = Some [] then None else phone')"
    "or_none email' = (if email' = Some [] then None else email')"
    by (simp_all add: or_none_def split: option.splits)
  have "create_user env name' phone' email' password w =
        (Inr (True, Inl (seq_users w + 1)),
         w\<lparr>users := users w @
              [\<lparr>u_id = seq_users w + 1, u_name = name', u_phone = or_none phone',
                u_email = or_none email', u_password = sha256_hex env password,
                u_created_at = now env\<rparr>],
           seq_users := seq_users w + 1\<rparr>)"
    by (rule create_user_ok) (use c o in auto)
  then show "create_user env name' phone' email' password w =
        (Inr (True, Inl (seq_users w + 1)),
         w\<lparr>users := users w @
              [\<lparr>u_id = seq_users w + 1, u_name = name',
                u_phone = (if phone' = Some [] then None else phone'),
                u_email = (if email' = Some [] then None else email'),
                u_password = sha256_hex env password, u_created_at = now env\<rparr>],
           seq_users := seq_users w + 1\<rparr>)"
    unfolding o .
next
  assume d: "json_body reqc = JObj kvsc \<and> has_text kvsc ''name'' nc \<and> has_text kvsc ''phone'' pc \<and>
    has_text kvsc ''email'' ec \<and> map_of kvsc ''password'' = Some (JStr pwc) \<and> pwc \<noteq> [] \<and>
    ((strip pc \<noteq> [] \<and> Some (strip pc) \<in> set (map u_phone (users w))) \<or>
     (strip ec \<noteq> [] \<and> Some (strip ec) \<in> set (map u_email (users w)))) \<and>
    db_fault env Users = None"
  have "signup env reqc w = (Inr (bad_request ''Phone/email already registered'', session reqc), w)"
    by (rule signup_conflict [where kvs = kvsc and phone = "strip pc" and email = "strip ec"])
       (use d get_strip_text in blast)+
  then show "signup env reqc w =
        (Inr (\<lparr>status = 400,
               body = JObj [(''success'', JBool False),
                            (''message'', JStr ''Phone/email already registered'')]\<rparr>,
              session reqc), w)"
    by (simp add: bad_request_def)
next
  assume e: "json_body reqb = JObj kvsb \<and> has_text kvsb ''name'' nb \<and> has_text kvsb ''phone'' pb \<and>
    has_text kvsb ''email'' eb \<and> strip pb = [] \<and> strip eb = []"
  have "signup env reqb w = (Inr (bad_request ''Phone or email required'', session reqb), w)"
    by (rule signup_both_blank [where kvs = kvsb and name = "strip nb"])
       (use e get_strip_text in metis)+
  then show "signup env reqb w =
        (Inr (\<lparr>status = 400,
               body = JObj [(''success'', JBool False), (''message'', JStr ''Phone or email required'')]\<rparr>,
              session reqb), w)"
    by (simp add: bad_request_def)
qed


theorem signup_null_contacts_witness:
  "json_body req_email_only =
     JObj [(''name'', JStr ''Ada''), (''phone'', JStr nbsp_blank), (''email'', JStr '' ada@example.org''),
           (''password'', JStr ''pw'')] \<and>
   strip nbsp_blank = [] \<and> strip '' ada@example.org'' = ''ada@example.org'' \<and>
   db_fault env0 Users = None \<and>
   Some ''ada@example.org'' \<notin> set (map u_email (users w_users)) \<and>
   signup env0 req_email_only w_users =
     (Inr (\<lparr>status = 200, body = JObj [(''success'', JBool True), (''name'', JStr ''Ada'')]\<rparr>,
           \<lparr>user_id = Some 2, user_name = Some ''Ada''\<rparr>),
      w_users\<lparr>users := users w_users @
           [\<lparr>u_id = 2, u_name = ''Ada'', u_phone = None, u_email = Some ''ada@example.org'',
             u_password = ''pw'', u_created_at = 100\<rparr>],
        seq_users := 2\<rparr>) \<and>
   fresh four_contacts w_users \<and>
   list_all registered
     (fst (signup_each env0 (map (\<lambda>c. signup_request c ''pw'') four_contacts) w_users)) \<and>
   map u_phone (users (snd (signup_each env0 (map (\<lambda>c. signup_request c ''pw'') four_contacts) w_users)))
     = [None, None, Some ''555 0100'', None, Some ''555 0101''] \<and>
   map u_email (users (snd (signup_each env0 (map (\<lambda>c. signup_request c ''pw'') four_contacts) w_users)))
     = [Some ''bea@example.org'', Some ''a@example.org'', None, Some ''c@example.org'', None] \<and>
   create_user env0 ''Cy'' (Some []) (Some ''cy@example.org'') ''pw'' w_users =
     (Inr (True, Inl 2),
      w_users\<lparr>users := users w_users @
           [\<lparr>u_id = 2, u_name = ''Cy'', u_phone = None, u_email = Some ''cy@example.org'',
             u_password = ''pw'', u_created_at = 100\<rparr>],
        seq_users := 2\<rparr>) \<and>
   Some ''bea@example.org'' \<in> set (map u_email (users w_users)) \<and>
   signup env0 req_taken_email w_users =
     (Inr (\<lparr>status = 400,
            body = JObj [(''success'', JBool False),
                         (''message'', JStr ''Phone/email already registered'')]\<rparr>, anonymous),
      w_users) \<and>
   signup env0 req_both_blank w_users =
     (Inr (\<lparr>status = 400,
            body = JObj [(''success'', JBool False), (''message'', JStr ''Phone or email required'')]\<rparr>,
           anonymous),
      w_users)"
proof -
  let ?kvs = "[(''name'', JStr ''Ada''), (''phone'', JStr nbsp_blank),
               (''email'', JStr '' ada@example.org''), (''password'', JStr ''pw'')]"
  let ?kvc = "[(''email'', JStr ''bea@example.org''), (''password'', JStr ''pw'')]"
  let ?kvb = "[(''phone'', JStr nbsp_blank), (''email'', JStr ''  ''), (''password'', JStr ''pw'')]"
  have s: "strip ''Ada'' = ''Ada''" "strip nbsp_blank = []"
    "strip '' ada@example.org'' = ''ada@example.org''"
    "strip ''bea@example.org'' = ''bea@example.org''" "strip ''  '' = []" "strip [] = []"
    by code_simp+
  have b: "json_body req_email_only = JObj ?kvs" "json_body req_taken_email = JObj ?kvc"
    "json_body req_both_blank = JObj ?kvb"
    by (simp_all add: req_email_only_def req_taken_email_def req_both_blank_def)
  have h: "has_text ?kvs ''name'' ''Ada''" "has_text ?kvs ''phone'' nbsp_blank"
    "has_text ?kvs ''email'' '' ada@example.org''"
    "has_text ?kvc ''name'' []" "has_text ?kvc ''phone'' []"
    "has_text ?kvc ''email'' ''bea@example.org''"
    "has_text ?kvb ''name'' []" "has_text ?kvb ''phone'' nbsp_blank" "has_text ?kvb ''email'' ''  ''"
    by (simp_all add: has_text_def)
  have m: "map_of ?kvs ''password'' = Some (JStr ''pw'')" "map_of ?kvc ''password'' = Some (JStr ''pw'')"
    by simp_all
  have d: "db_fault env0 Users = None" by (simp add: env0_def)
  have u: "Some ''ada@example.org'' \<notin> set (map u_email (users w_users))"
    "Some ''cy@example.org'' \<notin> set (map u_email (users w_users))"
    "Some ''bea@example.org'' \<in> set (map u_email (users w_users))"
    by (simp_all add: w_users_def)
  have f: "fresh four_contacts w_users" by code_simp
  have v: "seq_users w_users + 1 = 2" "now env0 = 100" "sha256_hex env0 ''pw'' = ''pw''"
    by (simp_all add: w_users_def env0_def)
  have c: "map u_phone (users w_users) = [None]" "map u_email (users w_users) = [Some ''bea@example.org'']"
    by (simp_all add: w_users_def)
  have k: "map (\<lambda>c. case c of PhoneOnly p \<Rightarrow> Some (strip p) | EmailOnly e \<Rightarrow> None) four_contacts
             = [None, Some ''555 0100'', None, Some ''555 0101'']"
    "map (\<lambda>c. case c of PhoneOnly p \<Rightarrow> None | EmailOnly e \<Rightarrow> Some (strip e)) four_contacts
             = [Some ''a@example.org'', None, Some ''c@example.org'', None]"
    by code_simp+
  have a: "session req_taken_email = anonymous" "session req_both_blank = anonymous"
    by (simp_all add: req_taken_email_def req_both_blank_def req0_def)
  note t1 = signup_null_contacts [where req = req_email_only and kvs = ?kvs and n = "''Ada''"
      and p = nbsp_blank and e = "'' ada@example.org''" and pw = "''pw''" and w = w_users
      and env = env0 and cs = four_contacts and phone' = "Some []"
      and email' = "Some ''cy@example.org''" and name' = "''Cy''" and password = "''pw''"
      and reqc = req_taken_email and kvsc = ?kvc and nc = "[]" and pc = "[]"
      and ec = "''bea@example.org''" and pwc = "''pw''"
      and reqb = req_both_blank and kvsb = ?kvb and nb = "[]" and pb = nbsp_blank and eb = "''  ''",
      unfolded s v c k a]
  show ?thesis
    using b h m d u f t1 unfolding s by simp
qed

end
